theory Spec2Isabelle
  imports Main "HOL-Library.Log_Nat" "HOL-Library.Sublist"
begin

section \<open>JavaScript numbers\<close>

text \<open>
  The two edge functions compute fees and balances with JavaScript numbers, that is with
  IEEE-754 binary64 values. A finite number is represented by its exact rational value;
  the result of every arithmetic operation is rounded to the nearest binary64 value, ties
  to even, and overflows to an infinity. Negative zero is identified with zero: the
  handlers never divide by a computed value and \<open>toFixed\<close> prints both zeros alike.
\<close>

datatype number = Num rat | NaN | PosInf | NegInf

text \<open>\<open>ilog2 x\<close> is the binary exponent of a positive rational: \<open>2 powi ilog2 x \<le> x < 2 powi (ilog2 x + 1)\<close>.\<close>

definition ilog2 :: "rat \<Rightarrow> int" where
  "ilog2 x = (let (p, q) = quotient_of x; e = bitlen p - bitlen q
              in if 2 powi e \<le> x then e else e - 1)"

definition round_half_even :: "rat \<Rightarrow> int" where
  "round_half_even q =
     (let n = \<lfloor>q\<rfloor>; r = q - of_int n
      in if r < 1 / 2 then n else if 1 / 2 < r then n + 1 else if even n then n else n + 1)"

text \<open>
  Rounding of an exact value to binary64 precision: 53 significant bits, with the fixed
  spacing \<open>2 powi (- 1074)\<close> below the smallest normal number \<open>2 powi (- 1022)\<close>.
\<close>

definition fl :: "rat \<Rightarrow> rat" where
  "fl x = (if x = 0 then 0
           else let e = max (ilog2 \<bar>x\<bar>) (- 1022); ulp = 2 powi (e - 52)
                in sgn x * of_int (round_half_even (\<bar>x\<bar> / ulp)) * ulp)"

text \<open>
  IEEE-754 overflow: the value is rounded as if the exponent were unbounded, and a result
  of magnitude \<open>2^1024\<close> or more becomes an infinity.
\<close>

definition round_num :: "rat \<Rightarrow> number" where
  "round_num x =
     (let y = fl x
      in if y \<noteq> 0 \<and> 1024 \<le> ilog2 \<bar>y\<bar> then (if 0 < y then PosInf else NegInf)
         else Num y)"

fun js_neg :: "number \<Rightarrow> number" where
  "js_neg (Num a) = Num (- a)"
| "js_neg NaN = NaN"
| "js_neg PosInf = NegInf"
| "js_neg NegInf = PosInf"

definition is_inf :: "number \<Rightarrow> bool" where
  "is_inf a = (a = PosInf \<or> a = NegInf)"

definition js_add :: "number \<Rightarrow> number \<Rightarrow> number" where
  "js_add a b =
     (case (a, b) of
        (Num x, Num y) \<Rightarrow> round_num (x + y)
      | _ \<Rightarrow> if a = NaN \<or> b = NaN then NaN
             else if is_inf a \<and> is_inf b \<and> a \<noteq> b then NaN
             else if is_inf a then a else b)"

definition js_sub :: "number \<Rightarrow> number \<Rightarrow> number" where
  "js_sub a b = js_add a (js_neg b)"

text \<open>The sign of a number, as far as multiplication and division need it.\<close>

fun js_sign :: "number \<Rightarrow> int" where
  "js_sign (Num a) = (if 0 < a then 1 else if a < 0 then - 1 else 0)"
| "js_sign NaN = 0"
| "js_sign PosInf = 1"
| "js_sign NegInf = - 1"

definition signed_inf :: "int \<Rightarrow> number" where
  "signed_inf s = (if s = 0 then NaN else if 0 < s then PosInf else NegInf)"

definition js_mul :: "number \<Rightarrow> number \<Rightarrow> number" where
  "js_mul a b =
     (case (a, b) of
        (Num x, Num y) \<Rightarrow> round_num (x * y)
      | _ \<Rightarrow> if a = NaN \<or> b = NaN then NaN else signed_inf (js_sign a * js_sign b))"

definition js_div :: "number \<Rightarrow> number \<Rightarrow> number" where
  "js_div a b =
     (case (a, b) of
        (Num x, Num y) \<Rightarrow> if y = 0 then signed_inf (js_sign a) else round_num (x / y)
      | (Num x, _) \<Rightarrow> if b = NaN then NaN else Num 0
      | (_, Num y) \<Rightarrow> if a = NaN then NaN
                       else signed_inf (js_sign a * (if y < 0 then - 1 else 1))
      | _ \<Rightarrow> NaN)"

text \<open>The numeric literals of the source, as the binary64 values they denote.\<close>

definition lit_100 :: number where
  "lit_100 = round_num 100"

definition lit_0_025 :: number where
  "lit_0_025 = round_num (25 / 1000)"

section \<open>Strings\<close>

text \<open>
  Strings are byte sequences in UTF-8. The handlers only compare strings, concatenate
  them and run one regular expression whose literal characters are ASCII, so no
  operation depends on the length of a non-ASCII character.
\<close>

definition emoji_credit_card :: string where
  "emoji_credit_card = [CHR 0xF0, CHR 0x9F, CHR 0x92, CHR 0xB3]"

definition emoji_briefcase :: string where
  "emoji_briefcase = [CHR 0xF0, CHR 0x9F, CHR 0x92, CHR 0xBC]"

definition emoji_repeat :: string where
  "emoji_repeat = [CHR 0xF0, CHR 0x9F, CHR 0x94, CHR 0x81]"

definition emoji_money_bag :: string where
  "emoji_money_bag = [CHR 0xF0, CHR 0x9F, CHR 0x92, CHR 0xB0]"

definition emoji_cross_mark :: string where
  "emoji_cross_mark = [CHR 0xE2, CHR 0x9D, CHR 0x8C]"

definition is_digit :: "char \<Rightarrow> bool" where
  "is_digit c = (c \<in> set ''0123456789'')"

definition digit_val :: "char \<Rightarrow> nat" where
  "digit_val c = of_char c - 48"

definition digits_val :: "string \<Rightarrow> nat" where
  "digits_val ds = foldl (\<lambda>n c. 10 * n + digit_val c) 0 ds"

function nat_to_digits :: "nat \<Rightarrow> string" where
  "nat_to_digits n =
     (if n < 10 then [''0123456789'' ! n]
      else nat_to_digits (n div 10) @ [''0123456789'' ! (n mod 10)])"
  by pat_completeness auto
termination
  by (relation "measure (\<lambda>n. n)") auto

declare nat_to_digits.simps [simp del]

subsection \<open>\<open>Number.prototype.toFixed(2)\<close>\<close>

text \<open>
  ECMAScript: a non-finite number prints as \<open>NaN\<close>, \<open>Infinity\<close> or \<open>-Infinity\<close>; a
  negative number prints as \<open>-\<close> followed by its absolute value; a value of at least
  \<open>10^21\<close> prints as \<open>Number::toString\<close> does (the shortest round-trip notation, a
  function of the runtime that is a parameter here); otherwise the digits are those of
  the integer \<open>n\<close> with \<open>n / 100\<close> closest to the value, the larger \<open>n\<close> on a tie,
  padded with zeros to at least three digits, with a point before the last two.
\<close>

definition toFixed2 :: "(rat \<Rightarrow> string) \<Rightarrow> number \<Rightarrow> string" where
  "toFixed2 number_to_string x =
     (case x of
        NaN \<Rightarrow> ''NaN''
      | PosInf \<Rightarrow> ''Infinity''
      | NegInf \<Rightarrow> ''-Infinity''
      | Num v \<Rightarrow>
          (let s = (if v < 0 then ''-'' else []); y = \<bar>v\<bar>
           in if 10 ^ 21 \<le> y then s @ number_to_string y
              else let n = nat \<lfloor>y * 100 + 1 / 2\<rfloor>;
                       m = nat_to_digits n;
                       m = replicate (3 - length m) CHR ''0'' @ m;
                       k = length m
                   in s @ take (k - 2) m @ ''.'' @ drop (k - 2) m))"

subsection \<open>\<open>parseFloat\<close>\<close>

text \<open>
  \<open>parseFloat\<close> reads the longest prefix that is a decimal literal and ignores the rest.
  The handler applies it to the captured group of its regular expression with the commas
  removed, a string over the digits and the point, so signs, exponents, leading blanks
  and the word \<open>Infinity\<close> cannot occur and are not modelled: the prefix is a run of
  digits, optionally followed by a point and a run of digits, and at least one digit must
  be present. The value is the correctly rounded binary64 value of the literal.
\<close>

definition parseFloat :: "string \<Rightarrow> number" where
  "parseFloat s =
     (let ip = takeWhile is_digit s;
          r = dropWhile is_digit s;
          fp = (case r of [] \<Rightarrow> [] | c # cs \<Rightarrow> if c = CHR ''.'' then takeWhile is_digit cs else [])
      in if ip = [] \<and> fp = [] then NaN
         else round_num (of_nat (digits_val (ip @ fp)) / 10 ^ length fp))"

subsection \<open>The balance pattern of the callback handler\<close>

text \<open>
  \<^verbatim>\<open>/balance is\s+(?:Ksh|KES|Ksh\s+)([0-9,.]+)/i\<close>

  With the flag \<open>i\<close> (and without \<open>u\<close>) a pattern letter matches exactly its two ASCII
  cases: a character outside ASCII is never folded onto an ASCII one.
\<close>

definition canonicalize :: "char \<Rightarrow> char" where
  "canonicalize c =
     (case map_of (zip ''abcdefghijklmnopqrstuvwxyz'' ''ABCDEFGHIJKLMNOPQRSTUVWXYZ'') c of
        Some u \<Rightarrow> u
      | None \<Rightarrow> c)"

fun match_lit :: "string \<Rightarrow> string \<Rightarrow> string option" where
  "match_lit [] s = Some s"
| "match_lit (p # ps) [] = None"
| "match_lit (p # ps) (c # cs) =
     (if canonicalize c = canonicalize p then match_lit ps cs else None)"

text \<open>
  The class \<open>\s\<close>: the ECMAScript white space and line terminator code points
  (U+0009 to U+000D, U+0020, U+00A0, U+1680, U+2000 to U+200A, U+2028, U+2029, U+202F,
  U+205F, U+3000, U+FEFF), each in its UTF-8 encoding.
\<close>

definition white_space :: "string list" where
  "white_space =
     [[CHR 0x09], [CHR 0x0A], [CHR 0x0B], [CHR 0x0C], [CHR 0x0D], [CHR 0x20],
      [CHR 0xC2, CHR 0xA0],
      [CHR 0xE1, CHR 0x9A, CHR 0x80],
      [CHR 0xE2, CHR 0x80, CHR 0x80], [CHR 0xE2, CHR 0x80, CHR 0x81],
      [CHR 0xE2, CHR 0x80, CHR 0x82], [CHR 0xE2, CHR 0x80, CHR 0x83],
      [CHR 0xE2, CHR 0x80, CHR 0x84], [CHR 0xE2, CHR 0x80, CHR 0x85],
      [CHR 0xE2, CHR 0x80, CHR 0x86], [CHR 0xE2, CHR 0x80, CHR 0x87],
      [CHR 0xE2, CHR 0x80, CHR 0x88], [CHR 0xE2, CHR 0x80, CHR 0x89],
      [CHR 0xE2, CHR 0x80, CHR 0x8A],
      [CHR 0xE2, CHR 0x80, CHR 0xA8], [CHR 0xE2, CHR 0x80, CHR 0xA9],
      [CHR 0xE2, CHR 0x80, CHR 0xAF],
      [CHR 0xE2, CHR 0x81, CHR 0x9F],
      [CHR 0xE3, CHR 0x80, CHR 0x80],
      [CHR 0xEF, CHR 0xBB, CHR 0xBF]]"

definition match_space :: "string \<Rightarrow> string option" where
  "match_space s =
     (case filter (\<lambda>w. prefix w s) white_space of
        [] \<Rightarrow> None
      | w # _ \<Rightarrow> Some (drop (length w) s))"

text \<open>\<open>match_spaces\<close> is the greedy \<open>\s*\<close>: it consumes every leading blank.\<close>

function match_spaces :: "string \<Rightarrow> string" where
  "match_spaces s = (case match_space s of None \<Rightarrow> s | Some r \<Rightarrow> match_spaces r)"
  by pat_completeness auto
termination
proof (relation "measure length")
  show "wf (measure length)"
    by simp
next
  fix s r :: string
  assume "match_space s = Some r"
  then obtain w ws where f: "filter (\<lambda>w. prefix w s) white_space = w # ws"
    and r: "r = drop (length w) s"
    by (auto simp: match_space_def split: list.splits)
  from f have "w \<in> set (filter (\<lambda>w. prefix w s) white_space)"
    by simp
  then have "w \<in> set white_space" and p: "prefix w s"
    by simp_all
  then have "w \<noteq> []"
    by (auto simp: white_space_def)
  with p have "s \<noteq> []"
    by auto
  with \<open>w \<noteq> []\<close> r show "(r, s) \<in> measure length"
    by simp
qed

declare match_spaces.simps [simp del]

definition match_amount :: "string \<Rightarrow> string option" where
  "match_amount s =
     (let cap = takeWhile (\<lambda>c. c \<in> set ''0123456789,.'') s
      in if cap = [] then None else Some cap)"

text \<open>
  A match attempt at the start of \<open>s\<close>, giving the captured group. The alternatives are
  tried in the order of the pattern. Taking the quantifiers greedily without backtracking
  loses no match: after a shorter run of blanks the next character is a blank, which is
  neither the letter \<open>K\<close> nor in the class of the group, and the group ends the pattern.
\<close>

definition match_at :: "string \<Rightarrow> string option" where
  "match_at s =
     (case match_lit ''balance is'' s of
        None \<Rightarrow> None
      | Some r1 \<Rightarrow>
          (case match_space r1 of
             None \<Rightarrow> None
           | Some r2 \<Rightarrow>
               (let r3 = match_spaces r2;
                    alt1 = (case match_lit ''Ksh'' r3 of
                              None \<Rightarrow> None
                            | Some r \<Rightarrow> match_amount r);
                    alt2 = (case match_lit ''KES'' r3 of
                              None \<Rightarrow> None
                            | Some r \<Rightarrow> match_amount r);
                    alt3 = (case match_lit ''Ksh'' r3 of
                              None \<Rightarrow> None
                            | Some r \<Rightarrow>
                                (case match_space r of
                                   None \<Rightarrow> None
                                 | Some r' \<Rightarrow> match_amount (match_spaces r')))
                in case alt1 of
                     Some cap \<Rightarrow> Some cap
                   | None \<Rightarrow> (case alt2 of Some cap \<Rightarrow> Some cap | None \<Rightarrow> alt3))))"

text \<open>\<open>String.prototype.match\<close> with a pattern that is not global: the leftmost match.\<close>

fun balance_match :: "string \<Rightarrow> string option" where
  "balance_match [] = None"
| "balance_match (c # cs) =
     (case match_at (c # cs) of
        Some cap \<Rightarrow> Some cap
      | None \<Rightarrow> balance_match cs)"

declare balance_match.simps [simp del]

section \<open>The hosted database\<close>

text \<open>
  The tables the three components read and write, with the columns they name. A column
  the code leaves to its default on insert is \<open>None\<close>. Timestamps written by the code are
  the strings of \<open>new Date().toISOString()\<close>; \<open>created_at\<close> is in milliseconds since the
  epoch (a rational: the store keeps microseconds).
\<close>

datatype callback_payload =
    Payload string
  | Failed_payload string "number option" "string option"

record mpesa_transaction =
  checkout_request_id :: string
  tx_user_id :: string
  tx_chama_id :: "string option"
  purpose :: string
  tx_amount :: number
  transaction_type :: string
  tx_status :: string
  result_code :: "int option"
  result_desc :: "string option"
  mpesa_receipt_number :: "string option"
  transaction_date :: "string option"
  callback_data :: "callback_payload option"
  metadata_transaction_id :: "string option"
  created_at :: rat
  tx_updated_at :: "string option"

record user_central_wallet =
  w_user_id :: string
  balance :: number
  w_updated_at :: "string option"

record wallet_transaction =
  wt_user_id :: string
  wt_type :: string
  wt_amount :: number
  description :: string
  wt_status :: string
  reference_id :: string
  payment_method :: string
  currency :: "string option"

datatype notification_data =
    Success_data number string string string
  | Failure_data number string string "number option" "string option"

record chama_notification =
  n_user_id :: string
  n_chama_id :: "string option"
  n_type :: string
  title :: string
  message :: string
  n_data :: notification_data

text \<open>The stored procedure \<open>collect_platform_fee\<close> is external: its calls are recorded.\<close>

record platform_fee_call =
  p_user_id :: string
  p_fee_type :: string
  p_amount :: number
  p_source_transaction_id :: "string option"
  p_payment_reference :: string

record database =
  mpesa_transactions :: "mpesa_transaction list"
  user_central_wallets :: "user_central_wallet list"
  wallet_transactions :: "wallet_transaction list"
  chama_notifications :: "chama_notification list"
  platform_fee_calls :: "platform_fee_call list"

text \<open>
  A database call returns \<open>{data, error}\<close>. Besides the error that the data itself
  causes (\<open>.single()\<close> on a result that is not exactly one row), any call may fail for a
  reason outside the program; which calls do is an input of the model, one field for
  each call site.
\<close>

record db_error =
  code :: string
  err_message :: string
  instance_of_Error :: bool

record faults =
  tx_select_fault :: "db_error option"
  tx_update_fault :: "db_error option"
  wallet_select_fault :: "db_error option"
  wallet_insert_fault :: "db_error option"
  wallet_update_fault :: "db_error option"
  wallet_tx_insert_fault :: "db_error option"
  notification_insert_fault :: "db_error option"
  fee_rpc_fault :: "db_error option"
  stuck_query_fault :: "db_error option"

definition no_faults :: faults where
  "no_faults = \<lparr>tx_select_fault = None, tx_update_fault = None, wallet_select_fault = None,
     wallet_insert_fault = None, wallet_update_fault = None, wallet_tx_insert_fault = None,
     notification_insert_fault = None, fee_rpc_fault = None, stuck_query_fault = None\<rparr>"

definition pgrst116 :: db_error where
  "pgrst116 = \<lparr>code = ''PGRST116'',
     err_message = ''JSON object requested, multiple (or no) rows returned'',
     instance_of_Error = False\<rparr>"

text \<open>\<open>.select(...).eq(...).single()\<close>: the row if exactly one row matches.\<close>

definition select_single ::
    "db_error option \<Rightarrow> ('r \<Rightarrow> bool) \<Rightarrow> 'r list \<Rightarrow> 'r option \<times> db_error option" where
  "select_single fault p rows =
     (case fault of
        Some e \<Rightarrow> (None, Some e)
      | None \<Rightarrow> (case filter p rows of
                  [r] \<Rightarrow> (Some r, None)
                | _ \<Rightarrow> (None, Some pgrst116)))"

text \<open>\<open>.update(...).eq(...)\<close>: every matching row is updated.\<close>

definition update_where ::
    "db_error option \<Rightarrow> ('r \<Rightarrow> bool) \<Rightarrow> ('r \<Rightarrow> 'r) \<Rightarrow> 'r list \<Rightarrow> 'r list \<times> db_error option" where
  "update_where fault p upd rows =
     (case fault of
        Some e \<Rightarrow> (rows, Some e)
      | None \<Rightarrow> (map (\<lambda>r. if p r then upd r else r) rows, None))"

text \<open>\<open>.insert(...)\<close>, and the call of a stored procedure, which appends to its record.\<close>

definition insert_row :: "db_error option \<Rightarrow> 'r \<Rightarrow> 'r list \<Rightarrow> 'r list \<times> db_error option" where
  "insert_row fault r rows =
     (case fault of
        Some e \<Rightarrow> (rows, Some e)
      | None \<Rightarrow> (rows @ [r], None))"

section \<open>Requests, responses and the runtime\<close>

text \<open>A request: its method, the signature header if present, and the bytes of its body.\<close>

record request =
  req_method :: string
  x_paystack_signature :: "string option"
  req_body :: string

datatype response_body =
    No_body
  | Text string
  | Json_credited string number number
  | Json_failed string

record response =
  status :: nat
  body :: response_body
  headers :: "(string \<times> string) list"

text \<open>The payload of a webhook, with the fields the handler reads.\<close>

record charge_success =
  cs_reference :: string
  cs_amount :: number
  cs_channel :: string
  cs_paid_at :: string

record charge_failed =
  cf_reference :: string
  cf_gateway_response :: "string option"
  cf_channel :: string

datatype callback_event =
    Charge_success charge_success
  | Charge_failed charge_failed
  | Other_event

text \<open>
  The functions of the runtime and of the libraries that the handlers call:
  \<^item> \<open>req_text bytes\<close> is \<open>await req.text()\<close>: the text that the bytes of the body decode
    to as UTF-8, written again as UTF-8. It is the bytes themselves when they are valid
    UTF-8 without a byte order mark; an invalid sequence is replaced by U+FFFD;
  \<^item> \<open>hmac_sha512_hex key body\<close> is \<open>createHmac('sha512', key).update(body).digest('hex')\<close>;
  \<^item> \<open>json_parse body\<close> is \<open>JSON.parse\<close> followed by the reading of the payload. It is
    \<open>None\<close> on every body for which \<open>JSON.parse\<close>, the destructuring of \<open>callbackData\<close> and
    of \<open>data\<close>, the access \<open>customer.email\<close> or the call \<open>parsedMessage.match\<close> throws; all
    of these precede the first database call of the handler;
  \<^item> \<open>req_json body\<close> is \<open>await req.json()\<close> followed by the destructuring of
    \<open>reference\<close>: the reference, or the message of the error thrown;
  \<^item> \<open>now_iso k\<close> is the value of the \<open>k\<close>-th evaluation of
    \<open>new Date().toISOString()\<close> in a request, counted from zero;
  \<^item> \<open>number_to_string\<close> is \<open>Number::toString\<close> on values of at least \<open>10^21\<close>.
\<close>

record runtime =
  req_text :: "string \<Rightarrow> string"
  hmac_sha512_hex :: "string \<Rightarrow> string \<Rightarrow> string"
  json_parse :: "string \<Rightarrow> callback_event option"
  req_json :: "string \<Rightarrow> string + string"
  now_iso :: "nat \<Rightarrow> string"
  number_to_string :: "rat \<Rightarrow> string"

text \<open>
  The environment variables that the handlers read with \<open>Deno.env.get\<close>; each may be
  unset. The assertion \<open>!\<close> that the source puts after the first two is erased at run
  time.
\<close>

record env =
  SUPABASE_URL :: "string option"
  SUPABASE_SERVICE_ROLE_KEY :: "string option"
  PAYSTACK_SECRET_KEY :: "string option"

text \<open>\<open>x || null\<close> on an optional string: the empty string is falsy.\<close>

definition or_null :: "string option \<Rightarrow> string option" where
  "or_null x = (case x of None \<Rightarrow> None | Some s \<Rightarrow> if s = [] then None else Some s)"

text \<open>
  \<open>createClient(supabaseUrl, supabaseKey)\<close> of the client library, which both handlers
  call inside \<open>try\<close>: it throws an \<open>Error\<close> when the URL or the key is missing (unset or
  empty). The result is the message of the error thrown, or \<open>None\<close> when the client is
  created.
\<close>

definition createClient :: "string option \<Rightarrow> string option \<Rightarrow> string option" where
  "createClient supabaseUrl supabaseKey =
     (if or_null supabaseUrl = None then Some ''supabaseUrl is required.''
      else if or_null supabaseKey = None then Some ''supabaseKey is required.''
      else None)"

section \<open>The payment callback handler (\<open>paystack-callback\<close>)\<close>

definition callback_corsHeaders :: "(string \<times> string) list" where
  "callback_corsHeaders =
     [(''Access-Control-Allow-Origin'', ''*''),
      (''Access-Control-Allow-Headers'',
       ''authorization, x-client-info, apikey, content-type, x-paystack-signature'')]"

definition deposit_source :: "string \<Rightarrow> string" where
  "deposit_source channel =
     (if channel = ''mobile_money'' then ''M-Pesa''
      else if channel = ''bank'' then ''Bank Transfer''
      else if channel = ''card'' then ''Card''
      else ''Paystack'')"

definition notification_source :: "string \<Rightarrow> string" where
  "notification_source channel =
     (if channel = ''mobile_money'' then ''M-Pesa/Airtel Money''
      else if channel = ''bank'' then ''Bank Transfer''
      else if channel = ''card'' then ''Card Payment''
      else ''Paystack'')"

text \<open>
  Source lines 100 to 180: get or create the central wallet of the owner of the
  transaction, add the net amount, and on success record the wallet transaction and the
  notification. Every error is logged and otherwise ignored.
\<close>

definition credit_central_wallet ::
    "runtime \<Rightarrow> faults \<Rightarrow> charge_success \<Rightarrow> mpesa_transaction \<Rightarrow> number \<Rightarrow> number
      \<Rightarrow> database \<Rightarrow> database" where
  "credit_central_wallet rt f d transaction platformFee netAmount db =
     (let (centralWallet, centralWalletFetchError) =
            select_single (wallet_select_fault f)
              (\<lambda>w. w_user_id w = tx_user_id transaction) (user_central_wallets db);
          (centralWallet, db) =
            (case centralWallet of
               Some w \<Rightarrow> (Some w, db)
             | None \<Rightarrow>
                 (let newWallet = \<lparr>w_user_id = tx_user_id transaction, balance = Num 0,
                                    w_updated_at = None\<rparr>;
                      (rows, createWalletError) =
                        insert_row (wallet_insert_fault f) newWallet (user_central_wallets db)
                  in case createWalletError of
                       Some e \<Rightarrow> (None, db)
                     | None \<Rightarrow> (Some newWallet, db\<lparr>user_central_wallets := rows\<rparr>)))
      in case centralWallet of
           None \<Rightarrow> db
         | Some w \<Rightarrow>
             (let (rows, walletUpdateError) =
                    update_where (wallet_update_fault f)
                      (\<lambda>x. w_user_id x = tx_user_id transaction)
                      (\<lambda>x. x\<lparr>balance := js_add (balance w) netAmount,
                              w_updated_at := Some (now_iso rt 1)\<rparr>)
                      (user_central_wallets db)
              in case walletUpdateError of
                   Some e \<Rightarrow> db
                 | None \<Rightarrow>
                     (let db = db\<lparr>user_central_wallets := rows\<rparr>;
                          (wts, wtError) =
                            insert_row (wallet_tx_insert_fault f)
                              \<lparr>wt_user_id = tx_user_id transaction,
                               wt_type = ''deposit'',
                               wt_amount = netAmount,
                               description = deposit_source (cs_channel d) @ '' deposit (Fee: KES ''
                                 @ toFixed2 (number_to_string rt) platformFee @ '')'',
                               wt_status = ''completed'',
                               reference_id = cs_reference d,
                               payment_method = cs_channel d,
                               currency = Some ''KES''\<rparr>
                              (wallet_transactions db);
                          db = db\<lparr>wallet_transactions := wts\<rparr>;
                          (ns, nError) =
                            insert_row (notification_insert_fault f)
                              \<lparr>n_user_id = tx_user_id transaction,
                               n_chama_id = or_null (tx_chama_id transaction),
                               n_type = ''payment_success'',
                               title = emoji_money_bag @ '' Payment Successful'',
                               message = ''KES '' @ toFixed2 (number_to_string rt) netAmount
                                 @ '' added via '' @ notification_source (cs_channel d),
                               n_data = Success_data netAmount (cs_channel d) (cs_reference d)
                                 (cs_paid_at d)\<rparr>
                              (chama_notifications db)
                      in db\<lparr>chama_notifications := ns\<rparr>)))"

text \<open>Source lines 58 to 60, the amounts of a successful charge.\<close>

definition callback_amountPaid :: "number \<Rightarrow> number" where
  "callback_amountPaid amount = js_div amount lit_100"

definition callback_platformFee :: "number \<Rightarrow> number" where
  "callback_platformFee amount = js_mul (callback_amountPaid amount) lit_0_025"

definition callback_netAmount :: "number \<Rightarrow> number" where
  "callback_netAmount amount = js_sub (callback_amountPaid amount) (callback_platformFee amount)"

text \<open>The update of source lines 78 to 89, applied to a transaction row.\<close>

definition mark_success :: "runtime \<Rightarrow> string \<Rightarrow> charge_success \<Rightarrow> mpesa_transaction \<Rightarrow> mpesa_transaction" where
  "mark_success rt raw d t =
     t\<lparr>tx_status := ''success'',
       result_code := Some 0,
       result_desc := Some (''Payment via '' @ cs_channel d @ '' successful''),
       mpesa_receipt_number := Some (cs_reference d),
       transaction_date := Some (cs_paid_at d),
       callback_data := Some (Payload raw),
       tx_updated_at := Some (now_iso rt 0)\<rparr>"

text \<open>The branch \<open>event === 'charge.success'\<close>, source lines 48 to 197.\<close>

definition process_charge_success ::
    "runtime \<Rightarrow> faults \<Rightarrow> string \<Rightarrow> charge_success \<Rightarrow> database \<Rightarrow> database" where
  "process_charge_success rt f raw d db =
     (let platformFee = callback_platformFee (cs_amount d);
          netAmount = callback_netAmount (cs_amount d);
          (transaction, txError) =
            select_single (tx_select_fault f)
              (\<lambda>t. checkout_request_id t = cs_reference d) (mpesa_transactions db);
          (rows, updateError) =
            update_where (tx_update_fault f)
              (\<lambda>t. checkout_request_id t = cs_reference d) (mark_success rt raw d)
              (mpesa_transactions db);
          db = db\<lparr>mpesa_transactions := rows\<rparr>
      in case transaction of
           None \<Rightarrow> db
         | Some t \<Rightarrow>
             (let db = (if purpose t = ''other'' \<or> purpose t = ''wallet_topup''
                        then credit_central_wallet rt f d t platformFee netAmount db
                        else db);
                  (calls, feeError) =
                    insert_row (fee_rpc_fault f)
                      \<lparr>p_user_id = tx_user_id t,
                       p_fee_type = ''transaction'',
                       p_amount = platformFee,
                       p_source_transaction_id = metadata_transaction_id t,
                       p_payment_reference = cs_reference d\<rparr>
                      (platform_fee_calls db)
              in db\<lparr>platform_fee_calls := calls\<rparr>))"

text \<open>
  Source lines 211 to 228: the balance extracted from the gateway response, and the
  message for the user.
\<close>

definition parsedMessage_of :: "string option \<Rightarrow> string" where
  "parsedMessage_of gateway_response =
     (case gateway_response of
        None \<Rightarrow> ''Payment failed''
      | Some g \<Rightarrow> if g = [] then ''Payment failed'' else g)"

definition availableBalance_of :: "string option \<Rightarrow> number option" where
  "availableBalance_of gateway_response =
     (case balance_match (parsedMessage_of gateway_response) of
        None \<Rightarrow> None
      | Some cap \<Rightarrow> Some (parseFloat (filter (\<lambda>c. c \<noteq> CHR '','') cap)))"

definition userMessage_of :: "runtime \<Rightarrow> string option \<Rightarrow> string \<Rightarrow> string" where
  "userMessage_of rt gateway_response channel =
     (case availableBalance_of gateway_response of
        Some b \<Rightarrow>
          emoji_credit_card @ '' Payment failed: Insufficient ''
          @ (if channel = ''mobile_money'' then ''mobile money'' else ''account'')
          @ '' balance'' @ [CHR 0x0A]
          @ emoji_briefcase @ '' Available balance: KES '' @ toFixed2 (number_to_string rt) b
          @ [CHR 0x0A]
          @ emoji_repeat @ '' Please top up your account or try a smaller amount.''
      | None \<Rightarrow>
          if channel = ''mobile_money''
          then emoji_credit_card @ '' ''
               @ (if channel = ''mobile_money'' then ''Mobile Money'' else ''Payment'')
               @ '' transaction failed'' @ [CHR 0x0A]
               @ parsedMessage_of gateway_response @ [CHR 0x0A]
               @ emoji_repeat @ '' Please try again or contact your provider.''
          else parsedMessage_of gateway_response)"

text \<open>The branch \<open>event === 'charge.failed'\<close>, source lines 198 to 273.\<close>

definition process_charge_failed ::
    "runtime \<Rightarrow> faults \<Rightarrow> string \<Rightarrow> charge_failed \<Rightarrow> database \<Rightarrow> database" where
  "process_charge_failed rt f raw d db =
     (let availableBalance = availableBalance_of (cf_gateway_response d);
          userMessage = userMessage_of rt (cf_gateway_response d) (cf_channel d);
          (rows, updateError) =
            update_where (tx_update_fault f)
              (\<lambda>t. checkout_request_id t = cf_reference d)
              (\<lambda>t. t\<lparr>tx_status := ''failed'',
                      result_code := Some 1,
                      result_desc := Some userMessage,
                      callback_data :=
                        Some (Failed_payload raw availableBalance (cf_gateway_response d)),
                      tx_updated_at := Some (now_iso rt 0)\<rparr>)
              (mpesa_transactions db);
          db = db\<lparr>mpesa_transactions := rows\<rparr>;
          (transaction, txError) =
            select_single (tx_select_fault f)
              (\<lambda>t. checkout_request_id t = cf_reference d) (mpesa_transactions db)
      in case transaction of
           None \<Rightarrow> db
         | Some t \<Rightarrow>
             if tx_user_id t = [] then db
             else (let (ns, nError) =
                         insert_row (notification_insert_fault f)
                           \<lparr>n_user_id = tx_user_id t,
                            n_chama_id = or_null (tx_chama_id t),
                            n_type = ''payment_failed'',
                            title = emoji_cross_mark @ '' Payment Failed'',
                            message = userMessage,
                            n_data = Failure_data (tx_amount t) (cf_channel d) (cf_reference d)
                              availableBalance (cf_gateway_response d)\<rparr>
                           (chama_notifications db)
                   in db\<lparr>chama_notifications := ns\<rparr>))"

text \<open>
  The handler. An exception thrown inside \<open>try\<close> is caught and answered like a success
  (source lines 277 to 280); in the model the exceptions are those of \<open>createClient\<close>
  (source line 27, after the check of the signing secret and before the check of the
  signature) and those of \<open>json_parse\<close>. The signature is compared with the HMAC of the
  text of the body, which is also the text that is parsed.
\<close>

definition paystack_callback ::
    "runtime \<Rightarrow> env \<Rightarrow> faults \<Rightarrow> request \<Rightarrow> database \<Rightarrow> response \<times> database" where
  "paystack_callback rt ev f req db =
     (if req_method req = ''OPTIONS''
      then (\<lparr>status = 200, body = No_body, headers = callback_corsHeaders\<rparr>, db)
      else case PAYSTACK_SECRET_KEY ev of
        None \<Rightarrow> (\<lparr>status = 500, body = Text ''Configuration error'', headers = []\<rparr>, db)
      | Some paystackSecretKey \<Rightarrow>
          if paystackSecretKey = []
          then (\<lparr>status = 500, body = Text ''Configuration error'', headers = []\<rparr>, db)
          else
            (let ok = \<lparr>status = 200, body = Text ''OK'', headers = callback_corsHeaders\<rparr>
             in case createClient (SUPABASE_URL ev) (SUPABASE_SERVICE_ROLE_KEY ev) of
                  Some error \<Rightarrow> (ok, db)
                | None \<Rightarrow>
                    (let signature = x_paystack_signature req;
                         body_text = req_text rt (req_body req);
                         hash = hmac_sha512_hex rt paystackSecretKey body_text
                     in if Some hash \<noteq> signature
                        then (\<lparr>status = 401, body = Text ''Invalid signature'',
                               headers = []\<rparr>, db)
                        else case json_parse rt body_text of
                          None \<Rightarrow> (ok, db)
                        | Some (Charge_success d) \<Rightarrow>
                            (ok, process_charge_success rt f body_text d db)
                        | Some (Charge_failed d) \<Rightarrow>
                            (ok, process_charge_failed rt f body_text d db)
                        | Some Other_event \<Rightarrow> (ok, db))))"

section \<open>The manual credit function (\<open>manual-credit-payment\<close>)\<close>

definition manual_corsHeaders :: "(string \<times> string) list" where
  "manual_corsHeaders =
     [(''Access-Control-Allow-Origin'', ''*''),
      (''Access-Control-Allow-Headers'', ''authorization, x-client-info, apikey, content-type'')]"

definition json_headers :: "(string \<times> string) list" where
  "json_headers = manual_corsHeaders @ [(''Content-Type'', ''application/json'')]"

text \<open>What the handler throws: an \<open>Error\<close> with a message, or the error of a database call.\<close>

datatype thrown = Js_error string | Db_error db_error

text \<open>The \<open>catch\<close> block, source lines 117 to 124.\<close>

definition manual_catch :: "thrown \<Rightarrow> response" where
  "manual_catch error =
     (let errorMessage =
            (case error of
               Js_error m \<Rightarrow> m
             | Db_error e \<Rightarrow>
                 if instance_of_Error e then err_message e else ''Unknown error occurred'')
      in \<lparr>status = 400, body = Json_failed errorMessage, headers = json_headers\<rparr>)"

text \<open>Source lines 34 to 36, the amounts recomputed from the stored amount.\<close>

definition manual_platformFee :: "number \<Rightarrow> number" where
  "manual_platformFee amount = js_mul amount lit_0_025"

definition manual_netAmount :: "number \<Rightarrow> number" where
  "manual_netAmount amount = js_sub amount (manual_platformFee amount)"

text \<open>The update of source lines 89 to 99, applied to a transaction row.\<close>

definition mark_credited :: "runtime \<Rightarrow> string \<Rightarrow> mpesa_transaction \<Rightarrow> mpesa_transaction" where
  "mark_credited rt reference t =
     t\<lparr>tx_status := ''success'',
       result_code := Some 0,
       result_desc := Some ''Payment verified and credited manually'',
       mpesa_receipt_number := Some reference,
       transaction_date := Some (now_iso rt 1),
       tx_updated_at := Some (now_iso rt 2)\<rparr>"

text \<open>
  The body of \<open>try\<close> after the creation of the client, source lines 19 to 115: the
  response and the database on a normal return, or what was thrown and the database as
  it then is.
\<close>

definition manual_credit_try ::
    "runtime \<Rightarrow> faults \<Rightarrow> request \<Rightarrow> database \<Rightarrow> (thrown + response) \<times> database" where
  "manual_credit_try rt f req db =
     (case req_json rt (req_body req) of
        Inl m \<Rightarrow> (Inl (Js_error m), db)
      | Inr reference \<Rightarrow>
          (let (transaction, txError) =
                 select_single (tx_select_fault f)
                   (\<lambda>t. checkout_request_id t = reference) (mpesa_transactions db)
           in case transaction of
                None \<Rightarrow> (Inl (Js_error ''Transaction not found''), db)
              | Some t \<Rightarrow>
                  if txError \<noteq> None then (Inl (Js_error ''Transaction not found''), db)
                  else
                    (let amount = tx_amount t;
                         platformFee = manual_platformFee amount;
                         netAmount = manual_netAmount amount;
                         (wallet, walletFetchError) =
                           select_single (wallet_select_fault f)
                             (\<lambda>w. w_user_id w = tx_user_id t) (user_central_wallets db);
                         (wallet, db) =
                           (case wallet of
                              Some w \<Rightarrow> (Inr w, db)
                            | None \<Rightarrow>
                                (let newWallet = \<lparr>w_user_id = tx_user_id t, balance = Num 0,
                                                   w_updated_at = None\<rparr>;
                                     (rows, createWalletError) =
                                       insert_row (wallet_insert_fault f) newWallet
                                         (user_central_wallets db)
                                 in case createWalletError of
                                      Some e \<Rightarrow> (Inl (Db_error e), db)
                                    | None \<Rightarrow> (Inr newWallet, db\<lparr>user_central_wallets := rows\<rparr>)))
                     in case wallet of
                          Inl e \<Rightarrow> (Inl e, db)
                        | Inr w \<Rightarrow>
                            (let (rows, walletUpdateError) =
                                   update_where (wallet_update_fault f)
                                     (\<lambda>x. w_user_id x = tx_user_id t)
                                     (\<lambda>x. x\<lparr>balance := js_add (balance w) netAmount,
                                             w_updated_at := Some (now_iso rt 0)\<rparr>)
                                     (user_central_wallets db)
                             in case walletUpdateError of
                                  Some e \<Rightarrow> (Inl (Db_error e), db)
                                | None \<Rightarrow>
                                    (let db = db\<lparr>user_central_wallets := rows\<rparr>;
                                         (wts, wtError) =
                                           insert_row (wallet_tx_insert_fault f)
                                             \<lparr>wt_user_id = tx_user_id t,
                                              wt_type = ''deposit'',
                                              wt_amount = netAmount,
                                              description =
                                                ''Wallet top-up via Paystack (Fee: KES ''
                                                @ toFixed2 (number_to_string rt) platformFee @ '')'',
                                              wt_status = ''completed'',
                                              reference_id = reference,
                                              payment_method = ''paystack'',
                                              currency = None\<rparr>
                                             (wallet_transactions db);
                                         db = db\<lparr>wallet_transactions := wts\<rparr>;
                                         (txs, updateError) =
                                           update_where (tx_update_fault f)
                                             (\<lambda>t. checkout_request_id t = reference)
                                             (mark_credited rt reference)
                                             (mpesa_transactions db);
                                         db = db\<lparr>mpesa_transactions := txs\<rparr>
                                     in (Inr \<lparr>status = 200,
                                              body = Json_credited ''Payment credited successfully''
                                                netAmount (js_add (balance w) netAmount),
                                              headers = json_headers\<rparr>, db))))))"

text \<open>
  The handler: the preflight answer, the creation of the client (source lines 15 to 17),
  whose error is caught like every other one, and the rest of \<open>try\<close>.
\<close>

definition manual_credit_payment ::
    "runtime \<Rightarrow> env \<Rightarrow> faults \<Rightarrow> request \<Rightarrow> database \<Rightarrow> response \<times> database" where
  "manual_credit_payment rt ev f req db =
     (if req_method req = ''OPTIONS''
      then (\<lparr>status = 200, body = No_body, headers = manual_corsHeaders\<rparr>, db)
      else case createClient (SUPABASE_URL ev) (SUPABASE_SERVICE_ROLE_KEY ev) of
        Some m \<Rightarrow> (manual_catch (Js_error m), db)
      | None \<Rightarrow>
          (case manual_credit_try rt f req db of
             (Inl error, db') \<Rightarrow> (manual_catch error, db')
           | (Inr resp, db') \<Rightarrow> (resp, db')))"

section \<open>The stuck-payment reconciler (\<open>useStuckPaymentReconciliation\<close>)\<close>

text \<open>
  The query function of the hook, source lines 15 to 30. \<open>user\<close> is the identifier of
  the signed-in user, if any, and \<open>now\<close> the value of \<open>Date.now()\<close> in milliseconds.
  The result is the error thrown or the rows returned.
\<close>

definition stuck_payments_query ::
    "faults \<Rightarrow> string option \<Rightarrow> int \<Rightarrow> database \<Rightarrow> db_error + mpesa_transaction list" where
  "stuck_payments_query f user now db =
     (case user of
        None \<Rightarrow> Inr []
      | Some uid \<Rightarrow>
          (let fiveMinutesAgo = now - 5 * 60 * 1000
           in case stuck_query_fault f of
                Some error \<Rightarrow> Inl error
              | None \<Rightarrow>
                  Inr (filter (\<lambda>t. tx_user_id t = uid
                                 \<and> transaction_type t = ''paystack''
                                 \<and> tx_status t = ''pending''
                                 \<and> created_at t < of_int fiveMinutesAgo)
                        (mpesa_transactions db))))"

section \<open>Concrete inputs\<close>

text \<open>
  A small world on which the theorems below are instantiated: one pending transaction of
  100 shillings with reference \<open>ref_1\<close>, created at time 0 and owned by \<open>user_1\<close>, whose
  wallet holds 100 shillings, and the webhook of its successful charge of 10000 cents.
\<close>

definition ex_success :: charge_success where
  "ex_success = \<lparr>cs_reference = ''ref_1'', cs_amount = Num 10000,
     cs_channel = ''mobile_money'', cs_paid_at = ''2025-01-01T00:00:30.000Z''\<rparr>"

definition ex_failed :: charge_failed where
  "ex_failed = \<lparr>cf_reference = ''ref_1'',
     cf_gateway_response = Some ''Your Airtel Money balance is Ksh 35.00'',
     cf_channel = ''mobile_money''\<rparr>"

text \<open>
  The runtime of the examples. Every body below is ASCII and decodes to itself, except
  the single byte \<open>0xFF\<close>, which no UTF-8 text contains and which decodes to U+FFFD.
\<close>

definition ex_runtime :: runtime where
  "ex_runtime =
     \<lparr>req_text = (\<lambda>bytes. if bytes = [CHR 0xFF] then [CHR 0xEF, CHR 0xBF, CHR 0xBD]
                             else bytes),
      hmac_sha512_hex = (\<lambda>key body. ''9b71d224'' @ key @ body),
      json_parse = (\<lambda>body. if body = ''charge.success ref_1 10000''
                              then Some (Charge_success ex_success)
                            else if body = ''charge.success ref_1 153''
                              then Some (Charge_success (ex_success\<lparr>cs_amount := Num 153\<rparr>))
                            else if body = ''charge.failed ref_1''
                              then Some (Charge_failed ex_failed)
                            else None),
      req_json = (\<lambda>body. if body = [] then Inl ''Unexpected end of JSON input'' else Inr body),
      now_iso = (\<lambda>k. ''2025-01-01T00:06:00.00'' @ [''0123456789'' ! (k mod 10)] @ ''Z''),
      number_to_string = (\<lambda>x. ''1e+21'')\<rparr>"

definition ex_env :: env where
  "ex_env = \<lparr>SUPABASE_URL = Some ''https://project.supabase.co'',
     SUPABASE_SERVICE_ROLE_KEY = Some ''service_role_key'',
     PAYSTACK_SECRET_KEY = Some ''sk_test''\<rparr>"

text \<open>The same environment without the URL of the database.\<close>

definition ex_env_no_url :: env where
  "ex_env_no_url = ex_env\<lparr>SUPABASE_URL := None\<rparr>"

definition ex_tx :: mpesa_transaction where
  "ex_tx = \<lparr>checkout_request_id = ''ref_1'', tx_user_id = ''user_1'', tx_chama_id = None,
     purpose = ''wallet_topup'', tx_amount = Num 100, transaction_type = ''paystack'',
     tx_status = ''pending'', result_code = None, result_desc = None,
     mpesa_receipt_number = None, transaction_date = None, callback_data = None,
     metadata_transaction_id = None, created_at = 0, tx_updated_at = None\<rparr>"

definition ex_wallet :: user_central_wallet where
  "ex_wallet = \<lparr>w_user_id = ''user_1'', balance = Num 100, w_updated_at = None\<rparr>"

definition ex_db :: database where
  "ex_db = \<lparr>mpesa_transactions = [ex_tx], user_central_wallets = [ex_wallet],
     wallet_transactions = [], chama_notifications = [], platform_fee_calls = []\<rparr>"

definition ex_webhook :: request where
  "ex_webhook = \<lparr>req_method = ''POST'',
     x_paystack_signature = Some ''9b71d224sk_testcharge.success ref_1 10000'',
     req_body = ''charge.success ref_1 10000''\<rparr>"

definition ex_forged :: request where
  "ex_forged = \<lparr>req_method = ''POST'', x_paystack_signature = Some ''00'',
     req_body = ''charge.success ref_1 10000''\<rparr>"

definition ex_manual :: request where
  "ex_manual = \<lparr>req_method = ''POST'', x_paystack_signature = None, req_body = ''ref_1''\<rparr>"

definition ex_options :: request where
  "ex_options = \<lparr>req_method = ''OPTIONS'', x_paystack_signature = None, req_body = []\<rparr>"

text \<open>
  A request whose body is the single byte \<open>0xFF\<close>, signed over these bytes, and the
  webhook of a successful charge of 153 cents.
\<close>

definition ex_signed_bytes :: request where
  "ex_signed_bytes = \<lparr>req_method = ''POST'',
     x_paystack_signature = Some (''9b71d224sk_test'' @ [CHR 0xFF]), req_body = [CHR 0xFF]\<rparr>"

definition ex_webhook_153 :: request where
  "ex_webhook_153 = \<lparr>req_method = ''POST'',
     x_paystack_signature = Some ''9b71d224sk_testcharge.success ref_1 153'',
     req_body = ''charge.success ref_1 153''\<rparr>"

text \<open>A webhook with a valid signature whose body does not parse.\<close>

definition ex_garbled :: request where
  "ex_garbled = \<lparr>req_method = ''POST'', x_paystack_signature = Some ''9b71d224sk_test{'',
     req_body = ''{''\<rparr>"

text \<open>A second transaction of the same user, created four minutes before minute six.\<close>

definition ex_recent_tx :: mpesa_transaction where
  "ex_recent_tx = ex_tx\<lparr>checkout_request_id := ''ref_2'', created_at := 120000\<rparr>"

definition ex_db_two :: database where
  "ex_db_two = ex_db\<lparr>mpesa_transactions := [ex_tx, ex_recent_tx]\<rparr>"

text \<open>
  The same world with the purpose \<open>other\<close>, with the purpose \<open>contribution\<close>, and with
  a stored amount of 10000.
\<close>

definition ex_db_other :: database where
  "ex_db_other = ex_db\<lparr>mpesa_transactions := [ex_tx\<lparr>purpose := ''other''\<rparr>]\<rparr>"

definition ex_db_chama :: database where
  "ex_db_chama = ex_db\<lparr>mpesa_transactions := [ex_tx\<lparr>purpose := ''contribution''\<rparr>]\<rparr>"

definition ex_db_cents :: database where
  "ex_db_cents = ex_db\<lparr>mpesa_transactions := [ex_tx\<lparr>tx_amount := Num 10000\<rparr>]\<rparr>"

text \<open>Failures of single database calls.\<close>

definition ex_error :: db_error where
  "ex_error = \<lparr>code = ''57014'', err_message = ''canceling statement due to statement timeout'',
     instance_of_Error = False\<rparr>"

definition ex_lookup_fails :: faults where
  "ex_lookup_fails = no_faults\<lparr>tx_select_fault := Some ex_error\<rparr>"

definition ex_update_fails :: faults where
  "ex_update_fails = no_faults\<lparr>wallet_update_fault := Some ex_error\<rparr>"

text \<open>The balances of the wallet rows of a user, for the statements below.\<close>

definition wallet_balances :: "string \<Rightarrow> database \<Rightarrow> number list" where
  "wallet_balances uid db =
     map balance (filter (\<lambda>w. w_user_id w = uid) (user_central_wallets db))"

lemmas ex_defs = ex_success_def ex_failed_def ex_runtime_def ex_env_def ex_tx_def ex_wallet_def
  ex_db_def ex_webhook_def ex_forged_def ex_manual_def ex_options_def no_faults_def
  ex_garbled_def ex_recent_tx_def ex_db_two_def ex_db_other_def ex_db_chama_def ex_db_cents_def
  ex_error_def
  ex_lookup_fails_def ex_update_fails_def ex_env_no_url_def ex_signed_bytes_def
  ex_webhook_153_def

lemmas db_defs = select_single_def update_where_def insert_row_def

section \<open>Properties of the rounding\<close>

lemma bitlen_pow_bounds:
  fixes p :: int
  assumes "0 < p"
  shows "(2::rat) powi (bitlen p - 1) \<le> of_int p" and "of_int p < (2::rat) powi (bitlen p)"
proof -
  from assms have b: "1 \<le> bitlen p"
    by (simp add: bitlen_alt_def)
  from bitlen_bounds [OF assms]
  have lo: "2 ^ nat (bitlen p - 1) \<le> p" and hi: "p < 2 ^ nat (bitlen p)"
    by simp_all
  from lo have "(of_int (2 ^ nat (bitlen p - 1)) :: rat) \<le> of_int p"
    by (simp only: of_int_le_iff)
  with b show "(2::rat) powi (bitlen p - 1) \<le> of_int p"
    by (simp add: power_int_nonneg_exp)
  from hi have "(of_int p :: rat) < of_int (2 ^ nat (bitlen p))"
    by (simp only: of_int_less_iff)
  with b show "of_int p < (2::rat) powi (bitlen p)"
    by (simp add: power_int_nonneg_exp)
qed

lemma ilog2_bounds:
  assumes "0 < x"
  shows "2 powi (ilog2 x) \<le> x" and "x < 2 powi (ilog2 x + 1)"
proof -
  obtain p q where pq: "quotient_of x = (p, q)"
    by (cases "quotient_of x")
  then have q: "0 < q" and x: "x = of_int p / of_int q"
    by (rule quotient_of_denom_pos, rule quotient_of_div)
  with assms have p: "0 < p"
    by (simp add: zero_less_divide_iff)
  define a where "a = bitlen p"
  define b where "b = bitlen q"
  note pa = bitlen_pow_bounds [OF p, folded a_def]
  note qb = bitlen_pow_bounds [OF q, folded b_def]
  have qpos: "(0::rat) < of_int q"
    using q by simp
  have "2 powi (a - 1 - b) = (2::rat) powi (a - 1) / 2 powi b"
    by (simp add: power_int_diff)
  also have "\<dots> \<le> of_int p / 2 powi b"
    using pa(1) by (simp add: divide_right_mono)
  also have "\<dots> < of_int p / of_int q"
    using qb(2) p qpos by (simp add: divide_strict_left_mono)
  finally have lower: "2 powi (a - b - 1) < x"
    by (simp add: x algebra_simps)
  have "of_int p / of_int q < (2::rat) powi a / of_int q"
    using pa(2) qpos by (simp add: divide_strict_right_mono)
  also have "\<dots> \<le> 2 powi a / 2 powi (b - 1)"
    using qb(1) qpos by (intro divide_left_mono mult_pos_pos) simp_all
  also have "\<dots> = 2 powi (a - b + 1)"
    by (simp add: power_int_diff [symmetric] algebra_simps)
  finally have upper: "x < 2 powi (a - b + 1)"
    by (simp add: x)
  have il: "ilog2 x = (if 2 powi (a - b) \<le> x then a - b else a - b - 1)"
    by (simp add: ilog2_def pq a_def b_def Let_def)
  show "2 powi (ilog2 x) \<le> x"
    using lower by (simp add: il)
  show "x < 2 powi (ilog2 x + 1)"
    using upper by (auto simp: il not_le)
qed

lemma round_half_even_error: "\<bar>of_int (round_half_even q) - q\<bar> \<le> 1 / 2"
proof -
  have "of_int \<lfloor>q\<rfloor> \<le> q" and "q < of_int \<lfloor>q\<rfloor> + 1"
    by linarith+
  then show ?thesis
    by (auto simp: round_half_even_def Let_def)
qed

text \<open>In the normal range the relative error of the rounding is at most \<open>2^-53\<close>.\<close>

lemma fl_error:
  assumes "2 powi (- 1022) \<le> \<bar>x\<bar>"
  shows "\<bar>fl x - x\<bar> \<le> \<bar>x\<bar> / 2 ^ 53"
proof -
  have "(0::rat) < 2 powi (- 1022)"
    by (rule zero_less_power_int) simp
  with assms have pos: "0 < \<bar>x\<bar>"
    by linarith
  then have nz: "x \<noteq> 0"
    by simp
  define e where "e = ilog2 \<bar>x\<bar>"
  note eb = ilog2_bounds [OF pos, folded e_def]
  from assms eb(2) have lt: "(2::rat) powi (- 1022) < 2 powi (e + 1)"
    by (rule le_less_trans)
  have "- 1022 \<le> e"
  proof (rule ccontr)
    assume "\<not> - 1022 \<le> e"
    then have "e + 1 \<le> - 1022"
      by simp
    then have "(2::rat) powi (e + 1) \<le> 2 powi (- 1022)"
      by (rule power_int_increasing) simp
    with lt show False
      by (metis not_le)
  qed
  then have m: "max e (- 1022) = e"
    by simp
  define ulp :: rat where "ulp = 2 powi (e - 52)"
  have ulp_pos: "0 < ulp"
    by (simp add: ulp_def)
  define n where "n = round_half_even (\<bar>x\<bar> / ulp)"
  have flx: "fl x = sgn x * of_int n * ulp"
    using nz by (simp add: fl_def Let_def e_def [symmetric] m ulp_def n_def)
  have "fl x - x = sgn x * (of_int n * ulp - \<bar>x\<bar>)"
    by (simp only: flx right_diff_distrib mult_sgn_abs mult.assoc)
  then have "\<bar>fl x - x\<bar> = \<bar>sgn x\<bar> * \<bar>of_int n * ulp - \<bar>x\<bar>\<bar>"
    by (simp only: abs_mult)
  also have "\<dots> = \<bar>of_int n * ulp - \<bar>x\<bar>\<bar>"
    using nz by (simp only: abs_sgn_eq if_False mult_1)
  also have "of_int n * ulp - \<bar>x\<bar> = ulp * (of_int n - \<bar>x\<bar> / ulp)"
    using ulp_pos by (simp add: field_simps)
  also have "\<bar>\<dots>\<bar> = ulp * \<bar>of_int n - \<bar>x\<bar> / ulp\<bar>"
    using ulp_pos by (simp only: abs_mult abs_of_pos)
  also have "\<dots> \<le> ulp * (1 / 2)"
    using round_half_even_error [of "\<bar>x\<bar> / ulp"] ulp_pos
    by (intro mult_left_mono) (simp_all add: n_def)
  also have "\<dots> = 2 powi e / 2 ^ 53"
    by (simp add: ulp_def power_int_diff)
  also have "\<dots> \<le> \<bar>x\<bar> / 2 ^ 53"
    using eb(1) by (simp add: divide_right_mono)
  finally show ?thesis .
qed

lemma round_num_normal:
  assumes "2 powi (- 1022) \<le> \<bar>x\<bar>" and "\<bar>x\<bar> < 2 powi 1023"
  shows "round_num x = Num (fl x)"
proof (cases "fl x = 0")
  case True
  then show ?thesis
    by (simp add: round_num_def)
next
  case False
  then have pos: "0 < \<bar>fl x\<bar>"
    by simp
  have "\<bar>fl x\<bar> \<le> \<bar>fl x - x\<bar> + \<bar>x\<bar>"
    by linarith
  also have "\<dots> \<le> \<bar>x\<bar> / 2 ^ 53 + \<bar>x\<bar>"
    using fl_error [OF assms(1)] by linarith
  also have "\<dots> \<le> \<bar>x\<bar> * 2"
    by simp
  also have "\<dots> < 2 powi 1023 * 2"
    using assms(2) by (simp only: mult_less_cancel_right_pos zero_less_numeral)
  also have "\<dots> = 2 powi 1024"
    by (simp only: power_int_numeral power_Suc2 [symmetric]) simp
  finally have lt: "\<bar>fl x\<bar> < 2 powi 1024" .
  from ilog2_bounds(1) [OF pos] lt have "2 powi ilog2 \<bar>fl x\<bar> < (2::rat) powi 1024"
    by (rule le_less_trans)
  then have "ilog2 \<bar>fl x\<bar> < 1024"
    by (rule power_int_le_imp_less_exp [rotated]) simp_all
  then show ?thesis
    by (simp add: round_num_def Let_def)
qed

lemma fl_between:
  assumes "2 powi (- 1022) \<le> v" and "0 < v"
  shows "v * (1 - 1 / 2 ^ 53) \<le> fl v" and "fl v \<le> v * (1 + 1 / 2 ^ 53)"
proof -
  from assms have "2 powi (- 1022) \<le> \<bar>v\<bar>"
    by simp
  from fl_error [OF this] assms(2) have "\<bar>fl v - v\<bar> \<le> v / 2 ^ 53"
    by simp
  then have "v - fl v \<le> v / 2 ^ 53" and "fl v - v \<le> v / 2 ^ 53"
    by linarith+
  then show "v * (1 - 1 / 2 ^ 53) \<le> fl v" and "fl v \<le> v * (1 + 1 / 2 ^ 53)"
    by (simp_all add: algebra_simps)
qed

lemma abs_diff_leI:
  fixes a b e :: rat
  assumes "a - b \<le> e" and "b - a \<le> e"
  shows "\<bar>a - b\<bar> \<le> e"
  using assms by linarith

section \<open>Evaluation on numerals\<close>

lemma ilog2_unique:
  assumes "0 < x" and "2 powi e \<le> x" and "x < 2 powi (e + 1)"
  shows "ilog2 x = e"
proof (rule antisym)
  note b = ilog2_bounds [OF assms(1)]
  show "ilog2 x \<le> e"
  proof (rule ccontr)
    assume "\<not> ilog2 x \<le> e"
    then have "e + 1 \<le> ilog2 x"
      by simp
    then have "(2::rat) powi (e + 1) \<le> 2 powi ilog2 x"
      by (rule power_int_increasing) simp
    with b(1) assms(3) show False
      by linarith
  qed
  show "e \<le> ilog2 x"
  proof (rule ccontr)
    assume "\<not> e \<le> ilog2 x"
    then have "ilog2 x + 1 \<le> e"
      by simp
    then have "(2::rat) powi (ilog2 x + 1) \<le> 2 powi e"
      by (rule power_int_increasing) simp
    with b(2) assms(2) show False
      by linarith
  qed
qed

text \<open>The rounding of a positive value whose binary exponent \<open>e\<close> is known.\<close>

lemma round_num_eval:
  assumes "0 < x" and "2 powi e \<le> x" and "x < 2 powi (e + 1)" and "- 1022 \<le> e" and "e < 1023"
  shows "round_num x = Num (of_int (round_half_even (x / 2 powi (e - 52))) * 2 powi (e - 52))"
proof -
  have "(2::rat) powi (- 1022) \<le> 2 powi e"
    using assms(4) by (rule power_int_increasing) simp
  with assms(2) have n: "2 powi (- 1022) \<le> \<bar>x\<bar>"
    using assms(1) by linarith
  have "e + 1 \<le> 1023"
    using assms(5) by simp
  then have "(2::rat) powi (e + 1) \<le> 2 powi 1023"
    by (rule power_int_increasing) simp
  with assms(3) have h: "\<bar>x\<bar> < 2 powi 1023"
    using assms(1) by linarith
  have il: "ilog2 x = e"
    using assms(1,2,3) by (rule ilog2_unique)
  have m: "max e (- 1022) = e"
    using assms(4) by simp
  have "fl x = of_int (round_half_even (x / 2 powi (e - 52))) * 2 powi (e - 52)"
    using assms(1) by (simp add: fl_def il m Let_def)
  with round_num_normal [OF n h] show ?thesis
    by simp
qed

lemma floor_rat_numeral: "\<lfloor>numeral a / numeral b :: rat\<rfloor> = numeral a div numeral b"
  by (metis floor_divide_of_int_eq of_int_numeral)

lemmas eval_simps = round_half_even_def Let_def floor_rat_numeral

lemma round_num_0: "round_num 0 = Num 0"
  by (simp add: round_num_def fl_def)

lemma round_num_ex:
  "round_num 35 = Num 35"
  "round_num 100 = Num 100"
  "round_num (195 / 2) = Num (195 / 2)"
  "round_num (2501 / 2) = Num (2501 / 2)"
  by (subst round_num_eval [where e = 5], simp_all add: eval_simps,
      subst round_num_eval [where e = 6], simp_all add: eval_simps,
      subst round_num_eval [where e = 6], simp_all add: eval_simps,
      subst round_num_eval [where e = 10], simp_all add: eval_simps)

lemma lit_100_eq: "lit_100 = Num 100"
  by (simp add: lit_100_def round_num_ex)

lemma lit_0_025_eq: "lit_0_025 = Num (3602879701896397 / 144115188075855872)"
  unfolding lit_0_025_def
  by (subst round_num_eval [where e = "- 6"]) (simp_all add: eval_simps)

lemma js_Num:
  "y \<noteq> 0 \<Longrightarrow> js_div (Num x) (Num y) = round_num (x / y)"
  "js_mul (Num x) (Num y) = round_num (x * y)"
  "js_add (Num x) (Num y) = round_num (x + y)"
  "js_sub (Num x) (Num y) = round_num (x - y)"
  by (simp_all add: js_div_def js_mul_def js_add_def js_sub_def)

lemmas amount_defs = callback_amountPaid_def callback_platformFee_def callback_netAmount_def
  manual_platformFee_def manual_netAmount_def lit_100_eq lit_0_025_eq js_Num

lemma amounts_0:
  "callback_amountPaid (Num 0) = Num 0"
  "callback_platformFee (Num 0) = Num 0"
  "callback_netAmount (Num 0) = Num 0"
  by (simp_all add: amount_defs round_num_0)

lemma fee_of_100: "round_num (100 * (3602879701896397 / 144115188075855872)) = Num (5 / 2)"
  by (subst round_num_eval [where e = 1]) (simp_all add: eval_simps)

lemma amounts_10000:
  "callback_amountPaid (Num 10000) = Num 100"
  "callback_platformFee (Num 10000) = Num (5 / 2)"
  "callback_netAmount (Num 10000) = Num (195 / 2)"
  using fee_of_100 by (simp_all add: amount_defs round_num_ex)

lemma manual_amounts_100:
  "manual_platformFee (Num 100) = Num (5 / 2)"
  "manual_netAmount (Num 100) = Num (195 / 2)"
  using fee_of_100 by (simp_all add: amount_defs round_num_ex)

lemma fee_of_10000: "round_num (10000 * (3602879701896397 / 144115188075855872)) = Num 250"
  by (subst round_num_eval [where e = 7]) (simp_all add: eval_simps)

lemma round_num_9750: "round_num 9750 = Num 9750"
  by (subst round_num_eval [where e = 13]) (simp_all add: eval_simps)

lemma manual_amounts_10000:
  "manual_platformFee (Num 10000) = Num 250"
  "manual_netAmount (Num 10000) = Num 9750"
  using fee_of_10000 round_num_9750 by (simp_all add: amount_defs)

lemma amountPaid_153:
  "round_num (153 / 100) = Num (6890507429876859 / 4503599627370496)"
  by (subst round_num_eval [where e = 0]) (simp_all add: eval_simps)

lemma fee_of_153:
  "round_num (6890507429876859 / 4503599627370496 * (3602879701896397 / 144115188075855872))
     = Num (344525371493843 / 9007199254740992)"
  by (subst round_num_eval [where e = "- 5"]) (simp_all add: eval_simps)

lemma net_of_153:
  "round_num (6890507429876859 / 4503599627370496 - 344525371493843 / 9007199254740992)
     = Num (3359122372064969 / 2251799813685248)"
  by (subst round_num_eval [where e = 0]) (simp_all add: eval_simps)

lemma sum_of_153:
  "round_num (344525371493843 / 9007199254740992 + 3359122372064969 / 2251799813685248)
     = Num (6890507429876860 / 4503599627370496)"
  by (subst round_num_eval [where e = 0]) (simp_all add: eval_simps)

lemma amounts_153:
  "callback_amountPaid (Num 153) = Num (6890507429876859 / 4503599627370496)"
  "callback_platformFee (Num 153) = Num (344525371493843 / 9007199254740992)"
  "callback_netAmount (Num 153) = Num (3359122372064969 / 2251799813685248)"
  using amountPaid_153 fee_of_153 net_of_153 by (simp_all add: amount_defs)

lemma js_add_ex:
  "js_add (Num 0) (Num (195 / 2)) = Num (195 / 2)"
  "js_add (Num 100) (Num (195 / 2)) = Num (395 / 2)"
  "js_add (Num (395 / 2)) (Num (195 / 2)) = Num 295"
  by (simp_all add: js_Num round_num_ex,
      subst round_num_eval [where e = 7], simp_all add: eval_simps,
      subst round_num_eval [where e = 8], simp_all add: eval_simps)

lemma nat_to_digits_small: "n < 10 \<Longrightarrow> nat_to_digits n = [''0123456789'' ! n]"
  by (simp add: nat_to_digits.simps)

lemma nat_to_digits_big:
  "10 \<le> n \<Longrightarrow> nat_to_digits n = nat_to_digits (n div 10) @ [''0123456789'' ! (n mod 10)]"
  by (subst nat_to_digits.simps) simp

lemma toFixed2_ex:
  "toFixed2 f (Num (5 / 2)) = ''2.50''"
  "toFixed2 f (Num (195 / 2)) = ''97.50''"
  "toFixed2 f (Num 35) = ''35.00''"
  by (simp_all add: toFixed2_def Let_def nat_to_digits_small nat_to_digits_big floor_rat_numeral)

section \<open>The amounts of a successful charge\<close>

lemma callback_amounts_finite:
  fixes A :: nat
  assumes "0 < A" and "A < 2 ^ 53"
  defines "x0 \<equiv> (of_nat A :: rat) / 100"
  shows "\<exists>ap fee net.
           callback_amountPaid (Num (of_nat A)) = Num ap
         \<and> callback_platformFee (Num (of_nat A)) = Num fee
         \<and> callback_netAmount (Num (of_nat A)) = Num net
         \<and> x0 * (1 - 1 / 2 ^ 53) \<le> ap \<and> ap \<le> x0 * (1 + 1 / 2 ^ 53)
         \<and> ap * (3602879701896397 / 144115188075855872) * (1 - 1 / 2 ^ 53) \<le> fee
         \<and> fee \<le> ap * (3602879701896397 / 144115188075855872) * (1 + 1 / 2 ^ 53)
         \<and> (ap - fee) * (1 - 1 / 2 ^ 53) \<le> net
         \<and> net \<le> (ap - fee) * (1 + 1 / 2 ^ 53)"
proof -
  define c :: rat where "c = 3602879701896397 / 144115188075855872"
  have "(1::rat) \<le> of_nat A"
    using assms(1) by simp
  then have x0_lo: "1 / 100 \<le> x0"
    by (simp add: x0_def)
  have "(of_nat A :: rat) < of_nat (2 ^ 53)"
    using assms(2) by (simp only: of_nat_less_iff)
  then have x0_hi: "x0 < 2 ^ 53 / 100"
    by (simp add: x0_def)
  have x0_pos: "0 < x0"
    using x0_lo by linarith
  have n0: "2 powi (- 1022) \<le> x0"
    using x0_lo by simp
  have h0: "\<bar>x0\<bar> < 2 powi 1023"
    using x0_hi x0_pos by simp
  define ap where "ap = fl x0"
  have ap_eq: "callback_amountPaid (Num (of_nat A)) = Num ap"
    using round_num_normal [of x0] n0 h0 x0_pos
    by (simp add: callback_amountPaid_def js_div_def lit_100_eq ap_def x0_def)
  note apb = fl_between [OF n0 x0_pos, folded ap_def]
  have ap_lo: "1 / 200 \<le> ap"
    using apb(1) x0_lo by simp
  have ap_hi: "ap < 2 ^ 53"
    using apb(2) x0_hi by simp
  define y1 where "y1 = ap * c"
  have y1_lo: "1 / 10000 \<le> y1" and y1_hi: "y1 < 2 ^ 53"
    using ap_lo ap_hi by (simp_all add: y1_def c_def)
  then have y1_pos: "0 < y1" and n1: "2 powi (- 1022) \<le> y1" and h1: "\<bar>y1\<bar> < 2 powi 1023"
    by simp_all
  define fee where "fee = fl y1"
  have fee_eq: "callback_platformFee (Num (of_nat A)) = Num fee"
    using round_num_normal [of y1] n1 h1 y1_pos
    by (simp add: callback_platformFee_def ap_eq js_mul_def lit_0_025_eq fee_def y1_def c_def)
  note feeb = fl_between [OF n1 y1_pos, folded fee_def]
  define y2 where "y2 = ap - fee"
  have y2_lo: "ap / 2 \<le> y2" and y2_hi: "y2 \<le> ap"
    using feeb ap_lo by (simp_all add: y2_def y1_def c_def)
  then have y2_pos: "0 < y2" and n2: "2 powi (- 1022) \<le> y2" and h2: "\<bar>y2\<bar> < 2 powi 1023"
    using ap_lo ap_hi by simp_all
  define net where "net = fl y2"
  have net_eq: "callback_netAmount (Num (of_nat A)) = Num net"
    using round_num_normal [of y2] n2 h2 y2_pos
    by (simp add: callback_netAmount_def ap_eq fee_eq js_sub_def js_add_def net_def y2_def)
  note netb = fl_between [OF n2 y2_pos, folded net_def]
  show ?thesis
    using ap_eq fee_eq net_eq apb feeb netb
    by (auto simp: y1_def y2_def c_def)
qed

text \<open>
  C4, as amended. For every amount \<open>A\<close> of minor units (an integer below \<open>2^53\<close>) the
  callback handler computes finite binary64 values: the amount paid is \<open>A / 100\<close>, the
  platform fee is \<open>A / 100 \<times> 0.025\<close> and the net amount is \<open>A / 100 \<times> 0.975\<close> up to a
  relative rounding error of at most \<open>2^-53\<close>, \<open>4 \<times> 2^-53\<close> and \<open>3 \<times> 2^-53\<close>, and the sum of
  fee and net amount differs from the amount paid by at most \<open>2^-53\<close> of it, and from
  \<open>A / 100\<close> by at most \<open>3 \<times> 2^-53\<close> of it. For the amount 10000 the three values are
  exactly 100, 2.5 and 97.5.
\<close>

theorem callback_amounts_within_rounding:
  fixes A :: nat
  assumes "A < 2 ^ 53"
  shows "(\<exists>ap fee net.
           callback_amountPaid (Num (of_nat A)) = Num ap
         \<and> callback_platformFee (Num (of_nat A)) = Num fee
         \<and> callback_netAmount (Num (of_nat A)) = Num net
         \<and> \<bar>ap - of_nat A / 100\<bar> \<le> (of_nat A / 100) / 2 ^ 53
         \<and> \<bar>fee - of_nat A / 100 * (25 / 1000)\<bar> \<le> 4 * (of_nat A / 100 * (25 / 1000)) / 2 ^ 53
         \<and> \<bar>net - of_nat A / 100 * (975 / 1000)\<bar> \<le> 3 * (of_nat A / 100 * (975 / 1000)) / 2 ^ 53
         \<and> \<bar>fee + net - ap\<bar> \<le> ap / 2 ^ 53
         \<and> \<bar>fee + net - of_nat A / 100\<bar> \<le> 3 * (of_nat A / 100) / 2 ^ 53)
       \<and> callback_amountPaid (Num 10000) = Num 100
       \<and> callback_platformFee (Num 10000) = Num (5 / 2)
       \<and> callback_netAmount (Num 10000) = Num (195 / 2)"
proof (cases "A = 0")
  case True
  then show ?thesis
    by (simp add: amounts_0 amounts_10000)
next
  case False
  then have pos: "0 < A"
    by simp
  define x0 :: rat where "x0 = of_nat A / 100"
  from callback_amounts_finite [OF pos assms, folded x0_def]
  obtain ap fee net where eqs: "callback_amountPaid (Num (of_nat A)) = Num ap"
      "callback_platformFee (Num (of_nat A)) = Num fee"
      "callback_netAmount (Num (of_nat A)) = Num net"
    and ap: "x0 * (1 - 1 / 2 ^ 53) \<le> ap" "ap \<le> x0 * (1 + 1 / 2 ^ 53)"
    and fee: "ap * (3602879701896397 / 144115188075855872) * (1 - 1 / 2 ^ 53) \<le> fee"
      "fee \<le> ap * (3602879701896397 / 144115188075855872) * (1 + 1 / 2 ^ 53)"
    and net: "(ap - fee) * (1 - 1 / 2 ^ 53) \<le> net" "net \<le> (ap - fee) * (1 + 1 / 2 ^ 53)"
    by blast
  have "(0::rat) < of_nat A"
    using pos by simp
  then have x0_pos: "0 < x0"
    by (simp add: x0_def)
  have g1: "\<bar>ap - x0\<bar> \<le> x0 / 2 ^ 53"
    by (rule abs_diff_leI) (use ap in \<open>simp add: field_simps; linarith\<close>)+
  have g2: "\<bar>fee - x0 * (25 / 1000)\<bar> \<le> 4 * (x0 * (25 / 1000)) / 2 ^ 53"
    by (rule abs_diff_leI) (use ap fee x0_pos in \<open>simp add: field_simps; linarith\<close>)+
  have g3: "\<bar>net - x0 * (975 / 1000)\<bar> \<le> 3 * (x0 * (975 / 1000)) / 2 ^ 53"
    by (rule abs_diff_leI) (use ap fee net x0_pos in \<open>simp add: field_simps; linarith\<close>)+
  have g4: "\<bar>fee + net - ap\<bar> \<le> ap / 2 ^ 53"
    by (rule abs_diff_leI) (use ap fee net x0_pos in \<open>simp add: field_simps; linarith\<close>)+
  have g5: "\<bar>fee + net - x0\<bar> \<le> 3 * x0 / 2 ^ 53"
    by (rule abs_diff_leI) (use ap fee net x0_pos in \<open>simp add: field_simps; linarith\<close>)+
  from eqs g1 g2 g3 g4 g5 amounts_10000 show ?thesis
    unfolding x0_def by blast
qed

theorem callback_amounts_within_rounding_witness:
  "(10000::nat) < 2 ^ 53
   \<and> (\<exists>ap fee net.
         callback_amountPaid (Num (of_nat (10000::nat))) = Num ap
       \<and> callback_platformFee (Num (of_nat (10000::nat))) = Num fee
       \<and> callback_netAmount (Num (of_nat (10000::nat))) = Num net
       \<and> \<bar>ap - of_nat (10000::nat) / 100\<bar> \<le> (of_nat (10000::nat) / 100) / 2 ^ 53
       \<and> \<bar>fee + net - ap\<bar> \<le> ap / 2 ^ 53)"
proof -
  have h: "(10000::nat) < 2 ^ 53"
    by simp
  from callback_amounts_within_rounding [OF h] h show ?thesis
    by blast
qed

text \<open>
  C4 as stated fails: for the amount 153 the handler computes an amount paid, a fee and a
  net amount whose sum, exact or rounded as the addition of the runtime rounds it, is
  neither the amount paid nor 1.53.
\<close>

theorem callback_amounts_not_exact:
  "callback_amountPaid (Num 153) = Num (6890507429876859 / 4503599627370496)
   \<and> callback_platformFee (Num 153) = Num (344525371493843 / 9007199254740992)
   \<and> callback_netAmount (Num 153) = Num (3359122372064969 / 2251799813685248)
   \<and> (344525371493843 / 9007199254740992 + 3359122372064969 / 2251799813685248 :: rat)
       \<noteq> 6890507429876859 / 4503599627370496
   \<and> (344525371493843 / 9007199254740992 + 3359122372064969 / 2251799813685248 :: rat)
       \<noteq> 153 / 100
   \<and> js_add (callback_platformFee (Num 153)) (callback_netAmount (Num 153))
       \<noteq> callback_amountPaid (Num 153)"
  using sum_of_153 by (simp add: amounts_153 js_Num)

section \<open>Shared facts about the handlers\<close>

lemma valid_webhook:
  assumes "req_method req \<noteq> ''OPTIONS''"
    and "PAYSTACK_SECRET_KEY ev = Some key" and "key \<noteq> []"
    and "createClient (SUPABASE_URL ev) (SUPABASE_SERVICE_ROLE_KEY ev) = None"
    and "x_paystack_signature req = Some (hmac_sha512_hex rt key (req_text rt (req_body req)))"
    and "json_parse rt (req_text rt (req_body req)) = Some (Charge_success d)"
  shows "snd (paystack_callback rt ev f req db) = process_charge_success rt f (req_text rt (req_body req)) d db"
  using assms by (simp add: paystack_callback_def Let_def)

lemma ex_valid:
  "req_method ex_webhook \<noteq> ''OPTIONS''"
  "PAYSTACK_SECRET_KEY ex_env = Some ''sk_test''"
  "''sk_test'' \<noteq> []"
  "createClient (SUPABASE_URL ex_env) (SUPABASE_SERVICE_ROLE_KEY ex_env) = None"
  "x_paystack_signature ex_webhook =
     Some (hmac_sha512_hex ex_runtime ''sk_test'' (req_text ex_runtime (req_body ex_webhook)))"
  "json_parse ex_runtime (req_text ex_runtime (req_body ex_webhook))
     = Some (Charge_success ex_success)"
  by (simp_all add: createClient_def or_null_def ex_defs)

lemma ex_valid_153:
  "req_method ex_webhook_153 \<noteq> ''OPTIONS''"
  "PAYSTACK_SECRET_KEY ex_env = Some ''sk_test''"
  "''sk_test'' \<noteq> []"
  "createClient (SUPABASE_URL ex_env) (SUPABASE_SERVICE_ROLE_KEY ex_env) = None"
  "x_paystack_signature ex_webhook_153 =
     Some (hmac_sha512_hex ex_runtime ''sk_test'' (req_text ex_runtime (req_body ex_webhook_153)))"
  "json_parse ex_runtime (req_text ex_runtime (req_body ex_webhook_153))
     = Some (Charge_success (ex_success\<lparr>cs_amount := Num 153\<rparr>))"
  by (simp_all add: createClient_def or_null_def ex_defs)

lemma ex_manual_valid:
  "req_method ex_manual \<noteq> ''OPTIONS''"
  "req_json ex_runtime (req_body ex_manual) = Inr (cs_reference ex_success)"
  by (simp_all add: ex_defs)

lemma no_faults_simps:
  "tx_select_fault no_faults = None" "tx_update_fault no_faults = None"
  "wallet_select_fault no_faults = None" "wallet_update_fault no_faults = None"
  "wallet_insert_fault no_faults = None" "wallet_tx_insert_fault no_faults = None"
  "notification_insert_fault no_faults = None"
  by (simp_all add: no_faults_def)

lemma js_add_153:
  "js_add (Num 100) (Num (3359122372064969 / 2251799813685248))
     = Num (3570923495946715 / 35184372088832)"
  "js_add (Num (3570923495946715 / 35184372088832)) (Num (3359122372064969 / 2251799813685248))
     = Num (1811704891505115 / 17592186044416)"
  "js_mul (Num 2) (Num (3359122372064969 / 2251799813685248))
     = Num (3359122372064969 / 1125899906842624)"
  "js_add (Num 100) (Num (3359122372064969 / 1125899906842624))
     = Num (7246819566020461 / 70368744177664)"
  by (simp_all only: js_Num,
      subst round_num_eval [where e = 6], simp_all add: eval_simps,
      subst round_num_eval [where e = 6], simp_all add: eval_simps,
      subst round_num_eval [where e = 1], simp_all add: eval_simps,
      subst round_num_eval [where e = 6], simp_all add: eval_simps)

lemma select_single_Some:
  assumes "fst (select_single fault p rows) = Some r"
  shows "r \<in> set rows" and "p r" and "filter p rows = [r]" and "fault = None"
proof -
  from assms show f: "filter p rows = [r]" and "fault = None"
    by (auto simp: select_single_def split: option.splits list.splits)
  then have "r \<in> set (filter p rows)"
    by simp
  then show "r \<in> set rows" and "p r"
    by simp_all
qed

lemma filter_map_update:
  assumes "\<And>x. p (g x) = p x"
  shows "filter p (map (\<lambda>x. if p x then g x else x) xs) = map g (filter p xs)"
  by (induct xs) (simp_all add: assms)

lemma credit_central_wallet_transactions:
  "mpesa_transactions (credit_central_wallet rt f d t fee net db) = mpesa_transactions db"
  by (simp add: credit_central_wallet_def Let_def split: option.splits prod.splits)

lemma process_charge_success_transactions:
  "mpesa_transactions (process_charge_success rt f raw d db) =
     fst (update_where (tx_update_fault f) (\<lambda>t. checkout_request_id t = cs_reference d)
            (mark_success rt raw d) (mpesa_transactions db))"
  by (simp add: process_charge_success_def credit_central_wallet_transactions insert_row_def
      Let_def split: option.splits prod.splits)

lemma credit_central_wallet_effect:
  assumes "wallet_insert_fault f = None" and "wallet_update_fault f = None"
  shows "user_central_wallets (credit_central_wallet rt f d t fee net db) =
           map (\<lambda>x. if w_user_id x = tx_user_id t
                     then x\<lparr>balance :=
                              js_add (case fst (select_single (wallet_select_fault f)
                                             (\<lambda>w. w_user_id w = tx_user_id t)
                                             (user_central_wallets db)) of
                                        Some w \<Rightarrow> balance w
                                      | None \<Rightarrow> Num 0) net,
                            w_updated_at := Some (now_iso rt 1)\<rparr>
                     else x)
               (case fst (select_single (wallet_select_fault f)
                            (\<lambda>w. w_user_id w = tx_user_id t) (user_central_wallets db)) of
                  Some w \<Rightarrow> user_central_wallets db
                | None \<Rightarrow> user_central_wallets db
                    @ [\<lparr>w_user_id = tx_user_id t, balance = Num 0, w_updated_at = None\<rparr>])"
    and "wallet_transactions (credit_central_wallet rt f d t fee net db) =
           fst (insert_row (wallet_tx_insert_fault f)
             \<lparr>wt_user_id = tx_user_id t, wt_type = ''deposit'', wt_amount = net,
              description = deposit_source (cs_channel d) @ '' deposit (Fee: KES ''
                @ toFixed2 (number_to_string rt) fee @ '')'',
              wt_status = ''completed'', reference_id = cs_reference d,
              payment_method = cs_channel d, currency = Some ''KES''\<rparr>
             (wallet_transactions db))"
    and "chama_notifications (credit_central_wallet rt f d t fee net db) =
           fst (insert_row (notification_insert_fault f)
             \<lparr>n_user_id = tx_user_id t, n_chama_id = or_null (tx_chama_id t),
              n_type = ''payment_success'', title = emoji_money_bag @ '' Payment Successful'',
              message = ''KES '' @ toFixed2 (number_to_string rt) net
                @ '' added via '' @ notification_source (cs_channel d),
              n_data = Success_data net (cs_channel d) (cs_reference d) (cs_paid_at d)\<rparr>
             (chama_notifications db))"
  using assms
  by (simp_all add: credit_central_wallet_def db_defs Let_def
      split: option.splits list.splits prod.splits)

lemma process_charge_success_not_credited:
  assumes "\<forall>t. fst (select_single (tx_select_fault f)
                   (\<lambda>t. checkout_request_id t = cs_reference d) (mpesa_transactions db)) = Some t
             \<longrightarrow> purpose t \<noteq> ''wallet_topup'' \<and> purpose t \<noteq> ''other''"
  shows "user_central_wallets (process_charge_success rt f raw d db) = user_central_wallets db"
    and "wallet_transactions (process_charge_success rt f raw d db) = wallet_transactions db"
    and "chama_notifications (process_charge_success rt f raw d db) = chama_notifications db"
  using assms
  by (auto simp: process_charge_success_def Let_def split: prod.splits option.splits)

lemma process_charge_success_credited:
  fixes rt :: runtime and raw :: string
  assumes "fst (select_single (tx_select_fault f)
                  (\<lambda>t. checkout_request_id t = cs_reference d) (mpesa_transactions db)) = Some t"
    and "purpose t = ''wallet_topup'' \<or> purpose t = ''other''"
  defines "db1 \<equiv> db\<lparr>mpesa_transactions :=
             fst (update_where (tx_update_fault f) (\<lambda>t. checkout_request_id t = cs_reference d)
                    (mark_success rt raw d) (mpesa_transactions db))\<rparr>"
  shows "user_central_wallets (process_charge_success rt f raw d db) =
           user_central_wallets (credit_central_wallet rt f d t (callback_platformFee (cs_amount d))
             (callback_netAmount (cs_amount d)) db1)"
    and "wallet_transactions (process_charge_success rt f raw d db) =
           wallet_transactions (credit_central_wallet rt f d t (callback_platformFee (cs_amount d))
             (callback_netAmount (cs_amount d)) db1)"
    and "chama_notifications (process_charge_success rt f raw d db) =
           chama_notifications (credit_central_wallet rt f d t (callback_platformFee (cs_amount d))
             (callback_netAmount (cs_amount d)) db1)"
  using assms(1,2) unfolding db1_def
  by (auto simp: process_charge_success_def Let_def split: prod.splits)

lemma credited_rows:
  fixes upd :: "user_central_wallet \<Rightarrow> user_central_wallet"
  assumes uid: "\<And>x. w_user_id (upd x) = w_user_id x" and bal: "\<And>x. balance (upd x) = b"
  shows "\<forall>x \<in> set (map (\<lambda>x. if w_user_id x = u then upd x else x) ws).
           w_user_id x = u \<longrightarrow> balance x = b"
    and "(\<exists>x \<in> set ws. w_user_id x = u) \<Longrightarrow>
         \<exists>x \<in> set (map (\<lambda>x. if w_user_id x = u then upd x else x) ws). w_user_id x = u"
proof -
  show "\<forall>x \<in> set (map (\<lambda>x. if w_user_id x = u then upd x else x) ws).
           w_user_id x = u \<longrightarrow> balance x = b"
  proof (intro ballI impI)
    fix x
    assume "x \<in> set (map (\<lambda>x. if w_user_id x = u then upd x else x) ws)"
      and ux: "w_user_id x = u"
    then obtain y where x: "x = (if w_user_id y = u then upd y else y)"
      by (auto simp only: set_map)
    show "balance x = b"
    proof (cases "w_user_id y = u")
      case True
      with x have "x = upd y"
        by simp
      then show ?thesis
        by (simp only: bal)
    next
      case False
      with x have "x = y"
        by simp
      with ux False show ?thesis
        by simp
    qed
  qed
  assume "\<exists>x \<in> set ws. w_user_id x = u"
  then obtain y where y: "y \<in> set ws" and uy: "w_user_id y = u"
    by blast
  from y have "(if w_user_id y = u then upd y else y)
      \<in> set (map (\<lambda>x. if w_user_id x = u then upd x else x) ws)"
    by (simp only: set_map) (rule imageI)
  with uy have "upd y \<in> set (map (\<lambda>x. if w_user_id x = u then upd x else x) ws)"
    by simp
  moreover have "w_user_id (upd y) = u"
    by (simp only: uid uy)
  ultimately show "\<exists>x \<in> set (map (\<lambda>x. if w_user_id x = u then upd x else x) ws).
      w_user_id x = u"
    by (rule bexI [rotated])
qed

lemma callback_credit_step:
  assumes "req_method req \<noteq> ''OPTIONS''"
    and "PAYSTACK_SECRET_KEY ev = Some key" and "key \<noteq> []"
    and "createClient (SUPABASE_URL ev) (SUPABASE_SERVICE_ROLE_KEY ev) = None"
    and "x_paystack_signature req = Some (hmac_sha512_hex rt key (req_text rt (req_body req)))"
    and "json_parse rt (req_text rt (req_body req)) = Some (Charge_success d)"
    and f: "tx_select_fault f = None" "tx_update_fault f = None" "wallet_select_fault f = None"
      "wallet_update_fault f = None"
    and tx: "filter (\<lambda>t. checkout_request_id t = cs_reference d) (mpesa_transactions db) = [t]"
    and p: "purpose t = ''wallet_topup'' \<or> purpose t = ''other''"
    and w: "filter (\<lambda>w. w_user_id w = tx_user_id t) (user_central_wallets db) = [w]"
  shows "user_central_wallets (snd (paystack_callback rt ev f req db)) =
           map (\<lambda>x. if w_user_id x = tx_user_id t
                     then x\<lparr>balance := js_add (balance w) (callback_netAmount (cs_amount d)),
                            w_updated_at := Some (now_iso rt 1)\<rparr>
                     else x)
               (user_central_wallets db)"
    and "mpesa_transactions (snd (paystack_callback rt ev f req db)) =
           map (\<lambda>x. if checkout_request_id x = cs_reference d
                     then mark_success rt (req_text rt (req_body req)) d x else x)
               (mpesa_transactions db)"
proof -
  note v = valid_webhook [OF assms(1-6)]
  have l: "fst (select_single (tx_select_fault f)
                  (\<lambda>t. checkout_request_id t = cs_reference d) (mpesa_transactions db)) = Some t"
    by (simp add: select_single_def f tx)
  define db1 where "db1 = db\<lparr>mpesa_transactions :=
             fst (update_where (tx_update_fault f) (\<lambda>t. checkout_request_id t = cs_reference d)
                    (mark_success rt (req_text rt (req_body req)) d) (mpesa_transactions db))\<rparr>"
  have w1: "filter (\<lambda>w. w_user_id w = tx_user_id t) (user_central_wallets db1) = [w]"
    by (simp add: db1_def w)
  have "user_central_wallets (credit_central_wallet rt f d t (callback_platformFee (cs_amount d))
          (callback_netAmount (cs_amount d)) db1) =
        map (\<lambda>x. if w_user_id x = tx_user_id t
                  then x\<lparr>balance := js_add (balance w) (callback_netAmount (cs_amount d)),
                         w_updated_at := Some (now_iso rt 1)\<rparr>
                  else x)
            (user_central_wallets db1)"
    by (simp add: credit_central_wallet_def db_defs f w1 Let_def split: option.splits)
  then show "user_central_wallets (snd (paystack_callback rt ev f req db)) =
           map (\<lambda>x. if w_user_id x = tx_user_id t
                     then x\<lparr>balance := js_add (balance w) (callback_netAmount (cs_amount d)),
                            w_updated_at := Some (now_iso rt 1)\<rparr>
                     else x)
               (user_central_wallets db)"
    unfolding v process_charge_success_credited(1)
      [OF l p, of rt "req_text rt (req_body req)", folded db1_def]
    by (simp add: db1_def)
  show "mpesa_transactions (snd (paystack_callback rt ev f req db)) =
           map (\<lambda>x. if checkout_request_id x = cs_reference d
                     then mark_success rt (req_text rt (req_body req)) d x else x)
               (mpesa_transactions db)"
    unfolding v process_charge_success_transactions by (simp add: update_where_def f)
qed

lemma manual_credit_step:
  assumes "req_method req \<noteq> ''OPTIONS''"
    and "req_json rt (req_body req) = Inr reference"
    and c: "createClient (SUPABASE_URL ev) (SUPABASE_SERVICE_ROLE_KEY ev) = None"
    and f: "tx_select_fault f = None" "tx_update_fault f = None" "wallet_select_fault f = None"
      "wallet_update_fault f = None"
    and tx: "filter (\<lambda>t. checkout_request_id t = reference) (mpesa_transactions db) = [t]"
    and w: "filter (\<lambda>w. w_user_id w = tx_user_id t) (user_central_wallets db) = [w]"
  shows "user_central_wallets (snd (manual_credit_payment rt ev f req db)) =
           map (\<lambda>x. if w_user_id x = tx_user_id t
                     then x\<lparr>balance := js_add (balance w) (manual_netAmount (tx_amount t)),
                            w_updated_at := Some (now_iso rt 0)\<rparr>
                     else x)
               (user_central_wallets db)"
    and "mpesa_transactions (snd (manual_credit_payment rt ev f req db)) =
           map (\<lambda>x. if checkout_request_id x = reference then mark_credited rt reference x else x)
               (mpesa_transactions db)"
    and "fst (manual_credit_payment rt ev f req db) =
           \<lparr>status = 200,
            body = Json_credited ''Payment credited successfully''
              (manual_netAmount (tx_amount t))
              (js_add (balance w) (manual_netAmount (tx_amount t))),
            headers = json_headers\<rparr>"
  using assms(1,2)
  by (simp_all add: manual_credit_payment_def manual_credit_try_def db_defs c f tx w Let_def
      split: option.splits)

lemma wallet_balances_single:
  assumes "wallet_balances u db = [X]"
  obtains w where "filter (\<lambda>w. w_user_id w = u) (user_central_wallets db) = [w]"
    and "balance w = X"
  using assms by (auto simp: wallet_balances_def map_eq_Cons_conv)

lemma wallet_balances_credited:
  assumes "user_central_wallets db' =
             map (\<lambda>x. if w_user_id x = u
                       then x\<lparr>balance := b, w_updated_at := s\<rparr> else x)
                 (user_central_wallets db)"
    and "filter (\<lambda>w. w_user_id w = u) (user_central_wallets db) = [w]"
  shows "filter (\<lambda>w. w_user_id w = u) (user_central_wallets db') =
           [w\<lparr>balance := b, w_updated_at := s\<rparr>]"
    and "wallet_balances u db' = [b]"
proof -
  have "filter (\<lambda>w. w_user_id w = u)
          (map (\<lambda>x. if w_user_id x = u then x\<lparr>balance := b, w_updated_at := s\<rparr> else x)
             (user_central_wallets db)) =
        map (\<lambda>x. x\<lparr>balance := b, w_updated_at := s\<rparr>)
          (filter (\<lambda>w. w_user_id w = u) (user_central_wallets db))"
    by (rule filter_map_update) simp
  then show "filter (\<lambda>w. w_user_id w = u) (user_central_wallets db') =
           [w\<lparr>balance := b, w_updated_at := s\<rparr>]"
    by (simp add: assms)
  then show "wallet_balances u db' = [b]"
    by (simp add: wallet_balances_def)
qed

lemma transactions_marked:
  assumes "mpesa_transactions db' =
             map (\<lambda>x. if checkout_request_id x = r then g x else x) (mpesa_transactions db)"
    and "\<And>x. checkout_request_id (g x) = checkout_request_id x"
    and "filter (\<lambda>t. checkout_request_id t = r) (mpesa_transactions db) = [t]"
  shows "filter (\<lambda>t. checkout_request_id t = r) (mpesa_transactions db') = [g t]"
proof -
  have "filter (\<lambda>t. checkout_request_id t = r)
          (map (\<lambda>x. if checkout_request_id x = r then g x else x) (mpesa_transactions db)) =
        map g (filter (\<lambda>t. checkout_request_id t = r) (mpesa_transactions db))"
    by (rule filter_map_update) (simp add: assms(2))
  then show ?thesis
    by (simp add: assms(1,3))
qed

lemma callback_delivered_twice:
  fixes f :: faults and db :: database and rt :: runtime and ev :: env
    and req :: request and d :: charge_success and t :: mpesa_transaction
  assumes v: "req_method req \<noteq> ''OPTIONS''"
      "PAYSTACK_SECRET_KEY ev = Some key" "key \<noteq> []"
      "createClient (SUPABASE_URL ev) (SUPABASE_SERVICE_ROLE_KEY ev) = None"
      "x_paystack_signature req = Some (hmac_sha512_hex rt key (req_text rt (req_body req)))"
      "json_parse rt (req_text rt (req_body req)) = Some (Charge_success d)"
    and f: "tx_select_fault f = None" "tx_update_fault f = None" "wallet_select_fault f = None"
      "wallet_update_fault f = None"
    and tx: "filter (\<lambda>t. checkout_request_id t = cs_reference d) (mpesa_transactions db) = [t]"
    and p: "purpose t = ''wallet_topup'' \<or> purpose t = ''other''"
    and w: "wallet_balances (tx_user_id t) db = [X]"
  defines "N \<equiv> callback_netAmount (cs_amount d)"
    and "db1 \<equiv> snd (paystack_callback rt ev f req db)"
  shows "wallet_balances (tx_user_id t) db1 = [js_add X N]"
    and "wallet_balances (tx_user_id t) (snd (paystack_callback rt ev f req db1))
           = [js_add (js_add X N) N]"
proof -
  from w obtain w0 where w0: "filter (\<lambda>w. w_user_id w = tx_user_id t) (user_central_wallets db) = [w0]"
    and X: "balance w0 = X"
    by (rule wallet_balances_single)
  note a = callback_credit_step [OF v f tx p w0, folded db1_def N_def, unfolded X]
  note aw = wallet_balances_credited [OF a(1) w0]
  define t1 where "t1 = mark_success rt (req_text rt (req_body req)) d t"
  have at: "filter (\<lambda>t. checkout_request_id t = cs_reference d) (mpesa_transactions db1) = [t1]"
    unfolding t1_def by (rule transactions_marked [OF a(2) _ tx]) (simp add: mark_success_def)
  have t1: "tx_user_id t1 = tx_user_id t" "purpose t1 = purpose t"
    by (simp_all add: t1_def mark_success_def)
  note b = callback_credit_step [OF v f at p [folded t1(2)] aw(1) [folded t1(1)],
      folded N_def, unfolded t1]
  show "wallet_balances (tx_user_id t) db1 = [js_add X N]"
    by (rule aw(2))
  show "wallet_balances (tx_user_id t) (snd (paystack_callback rt ev f req db1))
              = [js_add (js_add X N) N]"
    using wallet_balances_credited(2) [OF b(1) aw(1)] by simp
qed

lemma manual_called_twice:
  fixes f :: faults and db :: database and rt :: runtime and ev :: env
    and mreq :: request and t :: mpesa_transaction
  assumes m: "req_method mreq \<noteq> ''OPTIONS''" "req_json rt (req_body mreq) = Inr reference"
    and c: "createClient (SUPABASE_URL ev) (SUPABASE_SERVICE_ROLE_KEY ev) = None"
    and f: "tx_select_fault f = None" "tx_update_fault f = None" "wallet_select_fault f = None"
      "wallet_update_fault f = None"
    and tx: "filter (\<lambda>t. checkout_request_id t = reference) (mpesa_transactions db) = [t]"
    and w: "wallet_balances (tx_user_id t) db = [X]"
  defines "M \<equiv> manual_netAmount (tx_amount t)"
    and "m1 \<equiv> snd (manual_credit_payment rt ev f mreq db)"
  shows "wallet_balances (tx_user_id t) m1 = [js_add X M]"
    and "map tx_status
           (filter (\<lambda>t. checkout_request_id t = reference) (mpesa_transactions m1))
           = [''success'']"
    and "status (fst (manual_credit_payment rt ev f mreq m1)) = 200"
    and "wallet_balances (tx_user_id t) (snd (manual_credit_payment rt ev f mreq m1))
           = [js_add (js_add X M) M]"
proof -
  from w obtain w0 where w0: "filter (\<lambda>w. w_user_id w = tx_user_id t) (user_central_wallets db) = [w0]"
    and X: "balance w0 = X"
    by (rule wallet_balances_single)
  note c1 = manual_credit_step [OF m c f tx w0, folded m1_def M_def, unfolded X]
  note cw = wallet_balances_credited [OF c1(1) w0]
  define t2 where "t2 = mark_credited rt reference t"
  have ct: "filter (\<lambda>t. checkout_request_id t = reference) (mpesa_transactions m1) = [t2]"
    unfolding t2_def by (rule transactions_marked [OF c1(2) _ tx]) (simp add: mark_credited_def)
  have t2: "tx_user_id t2 = tx_user_id t" "tx_amount t2 = tx_amount t" "tx_status t2 = ''success''"
    by (simp_all add: t2_def mark_credited_def)
  note e = manual_credit_step [OF m c f ct cw(1) [folded t2(1)], unfolded t2, folded M_def]
  show "wallet_balances (tx_user_id t) m1 = [js_add X M]"
    by (rule cw(2))
  show "map tx_status
           (filter (\<lambda>t. checkout_request_id t = reference) (mpesa_transactions m1))
           = [''success'']"
    by (simp add: ct t2(3))
  show "status (fst (manual_credit_payment rt ev f mreq m1)) = 200"
    by (simp add: e(3))
  show "wallet_balances (tx_user_id t) (snd (manual_credit_payment rt ev f mreq m1))
              = [js_add (js_add X M) M]"
    using wallet_balances_credited(2) [OF e(1) cw(1)] by simp
qed

lemma manual_credit_wallets:
  assumes "req_method mreq \<noteq> ''OPTIONS''" and "req_json rt (req_body mreq) = Inr reference"
    and "createClient (SUPABASE_URL ev) (SUPABASE_SERVICE_ROLE_KEY ev) = None"
    and "select_single (tx_select_fault f) (\<lambda>t. checkout_request_id t = reference)
           (mpesa_transactions db) = (Some t, None)"
    and "user_central_wallets db' = user_central_wallets db"
  shows "map (\<lambda>w. (w_user_id w, balance w))
           (user_central_wallets (snd (manual_credit_payment rt ev f mreq db))) =
         map (\<lambda>w. (w_user_id w, balance w))
           (user_central_wallets (credit_central_wallet rt f d t fee (manual_netAmount (tx_amount t)) db'))"
  using assms
  by (simp add: manual_credit_payment_def manual_credit_try_def credit_central_wallet_def
      insert_row_def update_where_def Let_def o_def
      split: prod.splits option.splits cong: if_cong)

section \<open>Preflight requests\<close>

text \<open>
  C10. A request with the method \<open>OPTIONS\<close> is answered at once by both handlers, with
  status 200, no body and the CORS headers only: whatever the headers and the body of the
  request, the runtime functions (signature, parsing) and the failures of the database
  are, the response is the same and the database is unchanged.
\<close>

theorem options_preflight:
  assumes "req_method req = ''OPTIONS''"
  shows "paystack_callback rt ev f req db =
           (\<lparr>status = 200, body = No_body, headers = callback_corsHeaders\<rparr>, db)
         \<and> manual_credit_payment rt ev f req db =
           (\<lparr>status = 200, body = No_body, headers = manual_corsHeaders\<rparr>, db)"
  using assms by (simp add: paystack_callback_def manual_credit_payment_def)

theorem options_preflight_witness:
  "req_method ex_options = ''OPTIONS''
   \<and> paystack_callback ex_runtime ex_env ex_lookup_fails ex_options ex_db =
       (\<lparr>status = 200, body = No_body, headers = callback_corsHeaders\<rparr>, ex_db)
   \<and> manual_credit_payment ex_runtime ex_env ex_lookup_fails ex_options ex_db =
       (\<lparr>status = 200, body = No_body, headers = manual_corsHeaders\<rparr>, ex_db)"
proof -
  have h: "req_method ex_options = ''OPTIONS''"
    by (simp add: ex_options_def)
  from options_preflight [OF h] h show ?thesis
    by blast
qed

section \<open>Responses of the callback handler\<close>

text \<open>
  C2, as amended. For a request that is not \<open>OPTIONS\<close>: without a signing secret (absent
  or empty) the callback handler answers 500; with a secret, when the URL or the key of
  the database is missing, the creation of the client throws and the handler answers 200
  with the body \<open>OK\<close> and leaves the database as it is, whatever the signature; with a
  secret and a client, a signature header different from the hexadecimal HMAC-SHA512 of
  the text of the body (the bytes decoded as UTF-8) is answered 401 and the database is
  left as it is; in every other case the answer is 200 with the body \<open>OK\<close>, whatever the
  parsing of the body gives (also when it throws) and whichever database calls fail.
\<close>

theorem callback_responses:
  assumes "req_method req \<noteq> ''OPTIONS''"
  shows "(PAYSTACK_SECRET_KEY ev = None \<or> PAYSTACK_SECRET_KEY ev = Some [] \<longrightarrow>
            status (fst (paystack_callback rt ev f req db)) = 500)
       \<and> (\<forall>key. PAYSTACK_SECRET_KEY ev = Some key \<and> key \<noteq> []
              \<and> createClient (SUPABASE_URL ev) (SUPABASE_SERVICE_ROLE_KEY ev) \<noteq> None \<longrightarrow>
            paystack_callback rt ev f req db =
              (\<lparr>status = 200, body = Text ''OK'', headers = callback_corsHeaders\<rparr>, db))
       \<and> (\<forall>key. PAYSTACK_SECRET_KEY ev = Some key \<and> key \<noteq> []
              \<and> createClient (SUPABASE_URL ev) (SUPABASE_SERVICE_ROLE_KEY ev) = None
              \<and> x_paystack_signature req
                  \<noteq> Some (hmac_sha512_hex rt key (req_text rt (req_body req))) \<longrightarrow>
            status (fst (paystack_callback rt ev f req db)) = 401
            \<and> snd (paystack_callback rt ev f req db) = db)
       \<and> (\<forall>key. PAYSTACK_SECRET_KEY ev = Some key \<and> key \<noteq> []
              \<and> createClient (SUPABASE_URL ev) (SUPABASE_SERVICE_ROLE_KEY ev) = None
              \<and> x_paystack_signature req
                  = Some (hmac_sha512_hex rt key (req_text rt (req_body req))) \<longrightarrow>
            fst (paystack_callback rt ev f req db) =
              \<lparr>status = 200, body = Text ''OK'', headers = callback_corsHeaders\<rparr>)"
  using assms
  by (auto simp: paystack_callback_def Let_def split: option.splits callback_event.splits)

theorem callback_responses_witness:
  "req_method ex_webhook \<noteq> ''OPTIONS'' \<and> req_method ex_forged \<noteq> ''OPTIONS''
   \<and> req_method ex_garbled \<noteq> ''OPTIONS''
   \<and> status (fst (paystack_callback ex_runtime (ex_env\<lparr>PAYSTACK_SECRET_KEY := None\<rparr>) no_faults
         ex_webhook ex_db)) = 500
   \<and> createClient (SUPABASE_URL ex_env_no_url) (SUPABASE_SERVICE_ROLE_KEY ex_env_no_url)
       = Some ''supabaseUrl is required.''
   \<and> paystack_callback ex_runtime ex_env_no_url no_faults ex_webhook ex_db =
       (\<lparr>status = 200, body = Text ''OK'', headers = callback_corsHeaders\<rparr>, ex_db)
   \<and> createClient (SUPABASE_URL ex_env) (SUPABASE_SERVICE_ROLE_KEY ex_env) = None
   \<and> status (fst (paystack_callback ex_runtime ex_env no_faults ex_forged ex_db)) = 401
   \<and> snd (paystack_callback ex_runtime ex_env no_faults ex_forged ex_db) = ex_db
   \<and> fst (paystack_callback ex_runtime ex_env no_faults ex_webhook ex_db) =
       \<lparr>status = 200, body = Text ''OK'', headers = callback_corsHeaders\<rparr>
   \<and> json_parse ex_runtime (req_text ex_runtime (req_body ex_garbled)) = None
   \<and> fst (paystack_callback ex_runtime ex_env no_faults ex_garbled ex_db) =
       \<lparr>status = 200, body = Text ''OK'', headers = callback_corsHeaders\<rparr>"
proof -
  have m: "req_method ex_webhook \<noteq> ''OPTIONS''" "req_method ex_forged \<noteq> ''OPTIONS''"
      "req_method ex_garbled \<noteq> ''OPTIONS''"
    by (simp_all add: ex_defs)
  have p: "json_parse ex_runtime (req_text ex_runtime (req_body ex_garbled)) = None"
    by (simp add: ex_defs)
  have k: "createClient (SUPABASE_URL ex_env_no_url) (SUPABASE_SERVICE_ROLE_KEY ex_env_no_url)
             = Some ''supabaseUrl is required.''"
      "createClient (SUPABASE_URL ex_env) (SUPABASE_SERVICE_ROLE_KEY ex_env) = None"
    by (simp_all add: createClient_def or_null_def ex_defs)
  from callback_responses [OF m(1), where ev = "ex_env\<lparr>PAYSTACK_SECRET_KEY := None\<rparr>"]
  have a: "status (fst (paystack_callback ex_runtime (ex_env\<lparr>PAYSTACK_SECRET_KEY := None\<rparr>)
             no_faults ex_webhook ex_db)) = 500"
    by simp
  from callback_responses [OF m(1), of ex_env_no_url ex_runtime no_faults ex_db] k(1)
  have e: "paystack_callback ex_runtime ex_env_no_url no_faults ex_webhook ex_db =
             (\<lparr>status = 200, body = Text ''OK'', headers = callback_corsHeaders\<rparr>, ex_db)"
    by (simp add: ex_defs)
  from callback_responses [OF m(2), of ex_env ex_runtime no_faults ex_db] k(2)
  have b: "status (fst (paystack_callback ex_runtime ex_env no_faults ex_forged ex_db)) = 401
           \<and> snd (paystack_callback ex_runtime ex_env no_faults ex_forged ex_db) = ex_db"
    by (simp add: ex_defs)
  from callback_responses [OF m(1), of ex_env ex_runtime no_faults ex_db] k(2)
  have c: "fst (paystack_callback ex_runtime ex_env no_faults ex_webhook ex_db) =
             \<lparr>status = 200, body = Text ''OK'', headers = callback_corsHeaders\<rparr>"
    by (simp add: ex_defs)
  from callback_responses [OF m(3), of ex_env ex_runtime no_faults ex_db] k(2)
  have d: "fst (paystack_callback ex_runtime ex_env no_faults ex_garbled ex_db) =
             \<lparr>status = 200, body = Text ''OK'', headers = callback_corsHeaders\<rparr>"
    by (simp add: ex_defs)
  from m p k a e b c d show ?thesis
    by blast
qed

text \<open>
  C2 as stated fails: with the signing secret set and the URL of the database unset, a
  request with a wrong signature is answered 200 with the body \<open>OK\<close>, not 401; and a
  request whose body is the byte \<open>0xFF\<close>, signed over this raw body, is answered 401,
  because the handler signs the decoded text.
\<close>

theorem forged_request_answered_ok:
  "req_method ex_forged \<noteq> ''OPTIONS''
   \<and> PAYSTACK_SECRET_KEY ex_env_no_url = Some ''sk_test''
   \<and> x_paystack_signature ex_forged
       \<noteq> Some (hmac_sha512_hex ex_runtime ''sk_test'' (req_body ex_forged))
   \<and> paystack_callback ex_runtime ex_env_no_url no_faults ex_forged ex_db =
       (\<lparr>status = 200, body = Text ''OK'', headers = callback_corsHeaders\<rparr>, ex_db)
   \<and> req_method ex_signed_bytes \<noteq> ''OPTIONS''
   \<and> PAYSTACK_SECRET_KEY ex_env = Some ''sk_test''
   \<and> x_paystack_signature ex_signed_bytes
       = Some (hmac_sha512_hex ex_runtime ''sk_test'' (req_body ex_signed_bytes))
   \<and> paystack_callback ex_runtime ex_env no_faults ex_signed_bytes ex_db =
       (\<lparr>status = 401, body = Text ''Invalid signature'', headers = []\<rparr>, ex_db)"
  by (simp add: paystack_callback_def createClient_def or_null_def ex_defs)

section \<open>The query of the reconciler\<close>

text \<open>
  C7. With a signed-in user and a query that does not fail, the query of the reconciler
  returns rows, and a transaction is among them if and only if it is a row of the table
  owned by that user, of type \<open>paystack\<close>, of status \<open>pending\<close> and created strictly more
  than five minutes before the time of the query; a transaction created four minutes
  before is not returned.
\<close>

theorem stuck_query_membership:
  assumes "stuck_query_fault f = None"
  shows "\<exists>rows. stuck_payments_query f (Some uid) now db = Inr rows
           \<and> (\<forall>t. t \<in> set rows \<longleftrightarrow>
                  t \<in> set (mpesa_transactions db) \<and> tx_user_id t = uid
                  \<and> transaction_type t = ''paystack'' \<and> tx_status t = ''pending''
                  \<and> created_at t < of_int (now - 5 * 60 * 1000))
           \<and> (\<forall>t. created_at t = of_int (now - 4 * 60 * 1000) \<longrightarrow> t \<notin> set rows)"
  using assms
  by (auto simp: stuck_payments_query_def Let_def)

theorem stuck_query_membership_witness:
  "stuck_query_fault no_faults = None
   \<and> (\<exists>rows. stuck_payments_query no_faults (Some ''user_1'') 360000 ex_db_two = Inr rows
         \<and> ex_tx \<in> set rows \<and> ex_recent_tx \<notin> set rows)
   \<and> ex_tx \<in> set (mpesa_transactions ex_db_two)
   \<and> created_at ex_tx < of_int (360000 - 5 * 60 * 1000)
   \<and> ex_recent_tx \<in> set (mpesa_transactions ex_db_two)
   \<and> tx_status ex_recent_tx = ''pending''
   \<and> created_at ex_recent_tx = of_int (360000 - 4 * 60 * 1000)"
proof -
  have h: "stuck_query_fault no_faults = None"
    by (simp add: no_faults_def)
  have r: "ex_tx \<in> set (mpesa_transactions ex_db_two)"
      "tx_user_id ex_tx = ''user_1''" "transaction_type ex_tx = ''paystack''"
      "tx_status ex_tx = ''pending''"
      "created_at ex_tx < of_int (360000 - 5 * 60 * 1000)"
      "ex_recent_tx \<in> set (mpesa_transactions ex_db_two)"
      "tx_status ex_recent_tx = ''pending''"
      "created_at ex_recent_tx = of_int (360000 - 4 * 60 * 1000)"
    by (simp_all add: ex_defs)
  from stuck_query_membership [OF h, of "''user_1''" 360000 ex_db_two] r
  have "\<exists>rows. stuck_payments_query no_faults (Some ''user_1'') 360000 ex_db_two = Inr rows
          \<and> ex_tx \<in> set rows \<and> ex_recent_tx \<notin> set rows"
    by blast
  with h r show ?thesis
    by blast
qed

section \<open>The status update of a successful charge\<close>

text \<open>
  C6. For a verified \<open>charge.success\<close> event, every transaction row with the reference of
  the event is set to the status \<open>success\<close>, with result code 0, the description, the
  reference as receipt number, the payment time and the raw payload, provided the update
  call itself succeeds: the result does not depend on the preceding lookup, which may
  have found no row or failed.
\<close>

theorem success_update_unconditional:
  assumes "req_method req \<noteq> ''OPTIONS''"
    and "PAYSTACK_SECRET_KEY ev = Some key" and "key \<noteq> []"
    and "createClient (SUPABASE_URL ev) (SUPABASE_SERVICE_ROLE_KEY ev) = None"
    and "x_paystack_signature req = Some (hmac_sha512_hex rt key (req_text rt (req_body req)))"
    and "json_parse rt (req_text rt (req_body req)) = Some (Charge_success d)"
    and "tx_update_fault f = None"
  shows "mpesa_transactions (snd (paystack_callback rt ev f req db)) =
           map (\<lambda>t. if checkout_request_id t = cs_reference d
                     then t\<lparr>tx_status := ''success'',
                            result_code := Some 0,
                            result_desc := Some (''Payment via '' @ cs_channel d @ '' successful''),
                            mpesa_receipt_number := Some (cs_reference d),
                            transaction_date := Some (cs_paid_at d),
                            callback_data := Some (Payload (req_text rt (req_body req))),
                            tx_updated_at := Some (now_iso rt 0)\<rparr>
                     else t)
               (mpesa_transactions db)"
  using assms
  by (simp add: paystack_callback_def Let_def process_charge_success_transactions
      update_where_def mark_success_def)

theorem success_update_unconditional_witness:
  "req_method ex_webhook \<noteq> ''OPTIONS''
   \<and> PAYSTACK_SECRET_KEY ex_env = Some ''sk_test''
   \<and> createClient (SUPABASE_URL ex_env) (SUPABASE_SERVICE_ROLE_KEY ex_env) = None
   \<and> x_paystack_signature ex_webhook =
       Some (hmac_sha512_hex ex_runtime ''sk_test'' (req_text ex_runtime (req_body ex_webhook)))
   \<and> json_parse ex_runtime (req_text ex_runtime (req_body ex_webhook))
       = Some (Charge_success ex_success)
   \<and> tx_update_fault ex_lookup_fails = None
   \<and> select_single (tx_select_fault ex_lookup_fails)
         (\<lambda>t. checkout_request_id t = cs_reference ex_success) (mpesa_transactions ex_db)
       = (None, Some ex_error)
   \<and> map tx_status
         (mpesa_transactions (snd (paystack_callback ex_runtime ex_env ex_lookup_fails ex_webhook ex_db)))
       = [''success'']"
proof -
  have h: "req_method ex_webhook \<noteq> ''OPTIONS''"
      "PAYSTACK_SECRET_KEY ex_env = Some ''sk_test''"
      "''sk_test'' \<noteq> []"
      "createClient (SUPABASE_URL ex_env) (SUPABASE_SERVICE_ROLE_KEY ex_env) = None"
      "x_paystack_signature ex_webhook =
         Some (hmac_sha512_hex ex_runtime ''sk_test'' (req_text ex_runtime (req_body ex_webhook)))"
      "json_parse ex_runtime (req_text ex_runtime (req_body ex_webhook))
         = Some (Charge_success ex_success)"
      "tx_update_fault ex_lookup_fails = None"
    by (simp_all add: createClient_def or_null_def ex_defs)
  have l: "select_single (tx_select_fault ex_lookup_fails)
             (\<lambda>t. checkout_request_id t = cs_reference ex_success) (mpesa_transactions ex_db)
           = (None, Some ex_error)"
    by (simp add: select_single_def ex_lookup_fails_def no_faults_def)
  from success_update_unconditional [OF h, of ex_db]
  have "map tx_status
          (mpesa_transactions (snd (paystack_callback ex_runtime ex_env ex_lookup_fails ex_webhook ex_db)))
        = [''success'']"
    by (simp add: ex_defs)
  with h l show ?thesis
    by blast
qed

section \<open>Failures of the manual credit\<close>

lemma manual_credit_not_credited:
  assumes "status (fst (manual_credit_payment rt ev f req db)) \<noteq> 200"
  shows "mpesa_transactions (snd (manual_credit_payment rt ev f req db)) = mpesa_transactions db
       \<and> wallet_transactions (snd (manual_credit_payment rt ev f req db)) = wallet_transactions db"
  using assms
  by (auto simp: manual_credit_payment_def manual_credit_try_def manual_catch_def Let_def
      split: if_splits sum.splits option.splits prod.splits)



section \<open>The wallet credit of a successful charge\<close>

text \<open>
  C5, as amended. For a verified \<open>charge.success\<close> event: if the lookup by reference
  gave a transaction whose purpose is \<open>wallet_topup\<close> or \<open>other\<close>, and the creation of the
  wallet, the update of its balance and the two inserts do not fail, then the owner has a
  wallet afterwards, each of the owner's wallet rows holds the fetched balance (0 for a
  wallet just created) plus the net amount, one wallet transaction of type \<open>deposit\<close> for
  the net amount and one \<open>payment_success\<close> notification are appended; if the lookup gave
  no transaction, or one of any other purpose, then wallets, wallet transactions and
  notifications are unchanged.
\<close>

theorem wallet_credit_condition:
  fixes f :: faults and db :: database
  assumes "req_method req \<noteq> ''OPTIONS''"
    and "PAYSTACK_SECRET_KEY ev = Some key" and "key \<noteq> []"
    and "createClient (SUPABASE_URL ev) (SUPABASE_SERVICE_ROLE_KEY ev) = None"
    and "x_paystack_signature req = Some (hmac_sha512_hex rt key (req_text rt (req_body req)))"
    and "json_parse rt (req_text rt (req_body req)) = Some (Charge_success d)"
  defines "db' \<equiv> snd (paystack_callback rt ev f req db)"
    and "lookup \<equiv> fst (select_single (tx_select_fault f)
                        (\<lambda>t. checkout_request_id t = cs_reference d) (mpesa_transactions db))"
    and "net \<equiv> callback_netAmount (cs_amount d)"
  shows "(\<forall>t. lookup = Some t \<and> (purpose t = ''wallet_topup'' \<or> purpose t = ''other'')
            \<and> wallet_insert_fault f = None \<and> wallet_update_fault f = None
            \<and> wallet_tx_insert_fault f = None \<and> notification_insert_fault f = None \<longrightarrow>
          (\<exists>x \<in> set (user_central_wallets db'). w_user_id x = tx_user_id t)
          \<and> (\<forall>x \<in> set (user_central_wallets db'). w_user_id x = tx_user_id t \<longrightarrow>
                balance x =
                  js_add (case fst (select_single (wallet_select_fault f)
                                 (\<lambda>w. w_user_id w = tx_user_id t) (user_central_wallets db)) of
                            Some w \<Rightarrow> balance w
                          | None \<Rightarrow> Num 0) net)
          \<and> (\<exists>row. wallet_transactions db' = wallet_transactions db @ [row]
                \<and> wt_user_id row = tx_user_id t \<and> wt_type row = ''deposit''
                \<and> wt_amount row = net \<and> reference_id row = cs_reference d)
          \<and> (\<exists>n. chama_notifications db' = chama_notifications db @ [n]
                \<and> n_user_id n = tx_user_id t \<and> n_type n = ''payment_success''))
       \<and> ((\<forall>t. lookup = Some t \<longrightarrow> purpose t \<noteq> ''wallet_topup'' \<and> purpose t \<noteq> ''other'') \<longrightarrow>
            user_central_wallets db' = user_central_wallets db
          \<and> wallet_transactions db' = wallet_transactions db
          \<and> chama_notifications db' = chama_notifications db)"
proof (intro conjI allI impI)
  have db': "db' = process_charge_success rt f (req_text rt (req_body req)) d db"
    unfolding db'_def using assms(1-6) by (rule valid_webhook)
  {
    assume "\<forall>t. lookup = Some t \<longrightarrow> purpose t \<noteq> ''wallet_topup'' \<and> purpose t \<noteq> ''other''"
    then have n: "\<forall>t. fst (select_single (tx_select_fault f)
                   (\<lambda>t. checkout_request_id t = cs_reference d) (mpesa_transactions db)) = Some t
             \<longrightarrow> purpose t \<noteq> ''wallet_topup'' \<and> purpose t \<noteq> ''other''"
      by (simp add: lookup_def)
    show "user_central_wallets db' = user_central_wallets db"
      and "wallet_transactions db' = wallet_transactions db"
      and "chama_notifications db' = chama_notifications db"
      unfolding db' by (rule process_charge_success_not_credited [OF n])+
  }
  fix t
  assume a: "lookup = Some t \<and> (purpose t = ''wallet_topup'' \<or> purpose t = ''other'')
            \<and> wallet_insert_fault f = None \<and> wallet_update_fault f = None
            \<and> wallet_tx_insert_fault f = None \<and> notification_insert_fault f = None"
  then have l: "fst (select_single (tx_select_fault f)
                  (\<lambda>t. checkout_request_id t = cs_reference d) (mpesa_transactions db)) = Some t"
    and p: "purpose t = ''wallet_topup'' \<or> purpose t = ''other''"
    and wi: "wallet_insert_fault f = None" and wu: "wallet_update_fault f = None"
    and wt: "wallet_tx_insert_fault f = None" and nf: "notification_insert_fault f = None"
    by (simp_all add: lookup_def)
  define db1 where "db1 = db\<lparr>mpesa_transactions :=
             fst (update_where (tx_update_fault f) (\<lambda>t. checkout_request_id t = cs_reference d)
                    (mark_success rt (req_text rt (req_body req)) d) (mpesa_transactions db))\<rparr>"
  have same: "user_central_wallets db1 = user_central_wallets db"
      "wallet_transactions db1 = wallet_transactions db"
      "chama_notifications db1 = chama_notifications db"
    by (simp_all add: db1_def)
  note c = process_charge_success_credited [OF l p, of rt "req_text rt (req_body req)",
      folded db' net_def db1_def]
  note e = credit_central_wallet_effect [OF wi wu, of rt d t "callback_platformFee (cs_amount d)"
      net db1, unfolded same]
  define fetched where "fetched = fst (select_single (wallet_select_fault f)
    (\<lambda>w. w_user_id w = tx_user_id t) (user_central_wallets db))"
  define ws where "ws = (case fetched of
      Some w \<Rightarrow> user_central_wallets db
    | None \<Rightarrow> user_central_wallets db
        @ [\<lparr>w_user_id = tx_user_id t, balance = Num 0, w_updated_at = None\<rparr>])"
  define b where "b = js_add (case fetched of Some w \<Rightarrow> balance w | None \<Rightarrow> Num 0) net"
  have w: "user_central_wallets db' =
             map (\<lambda>x. if w_user_id x = tx_user_id t
                       then x\<lparr>balance := b, w_updated_at := Some (now_iso rt 1)\<rparr> else x) ws"
    unfolding c(1) e(1) ws_def b_def fetched_def ..
  have ex: "\<exists>x \<in> set ws. w_user_id x = tx_user_id t"
  proof (cases fetched)
    case None
    then show ?thesis
      by (simp add: ws_def)
  next
    case (Some w)
    with select_single_Some(1,2) [OF Some [unfolded fetched_def]] show ?thesis
      by (auto simp: ws_def)
  qed
  show "\<exists>x \<in> set (user_central_wallets db'). w_user_id x = tx_user_id t"
    unfolding w by (rule credited_rows(2) [OF _ _ ex]) simp_all
  show "\<forall>x \<in> set (user_central_wallets db'). w_user_id x = tx_user_id t \<longrightarrow>
          balance x =
            js_add (case fst (select_single (wallet_select_fault f)
                           (\<lambda>w. w_user_id w = tx_user_id t) (user_central_wallets db)) of
                      Some w \<Rightarrow> balance w
                    | None \<Rightarrow> Num 0) net"
    unfolding w fetched_def [symmetric] b_def [symmetric]
    by (rule credited_rows(1)) simp_all
  show "\<exists>row. wallet_transactions db' = wallet_transactions db @ [row]
          \<and> wt_user_id row = tx_user_id t \<and> wt_type row = ''deposit''
          \<and> wt_amount row = net \<and> reference_id row = cs_reference d"
    unfolding c(2) e(2) by (simp add: insert_row_def wt)
  show "\<exists>n. chama_notifications db' = chama_notifications db @ [n]
          \<and> n_user_id n = tx_user_id t \<and> n_type n = ''payment_success''"
    unfolding c(3) e(3) by (simp add: insert_row_def nf)
qed

theorem wallet_credit_condition_witness:
  "fst (select_single (tx_select_fault no_faults)
          (\<lambda>t. checkout_request_id t = cs_reference ex_success) (mpesa_transactions ex_db))
     = Some ex_tx
   \<and> purpose ex_tx = ''wallet_topup''
   \<and> set (wallet_balances ''user_1''
           (snd (paystack_callback ex_runtime ex_env no_faults ex_webhook ex_db)))
       = {Num (395 / 2)}
   \<and> length (wallet_transactions
         (snd (paystack_callback ex_runtime ex_env no_faults ex_webhook ex_db))) = 1
   \<and> length (chama_notifications
         (snd (paystack_callback ex_runtime ex_env no_faults ex_webhook ex_db))) = 1
   \<and> fst (select_single (tx_select_fault no_faults)
          (\<lambda>t. checkout_request_id t = cs_reference ex_success) (mpesa_transactions ex_db_chama))
     = Some (ex_tx\<lparr>purpose := ''contribution''\<rparr>)
   \<and> user_central_wallets
         (snd (paystack_callback ex_runtime ex_env no_faults ex_webhook ex_db_chama))
       = user_central_wallets ex_db_chama
   \<and> wallet_transactions
         (snd (paystack_callback ex_runtime ex_env no_faults ex_webhook ex_db_chama)) = []
   \<and> chama_notifications
         (snd (paystack_callback ex_runtime ex_env no_faults ex_webhook ex_db_chama)) = []"
proof -
  have l: "fst (select_single (tx_select_fault no_faults)
                 (\<lambda>t. checkout_request_id t = cs_reference ex_success) (mpesa_transactions ex_db))
           = Some ex_tx"
    and l': "fst (select_single (tx_select_fault no_faults)
                 (\<lambda>t. checkout_request_id t = cs_reference ex_success)
                 (mpesa_transactions ex_db_chama))
           = Some (ex_tx\<lparr>purpose := ''contribution''\<rparr>)"
    by (simp_all add: ex_defs select_single_def)
  have p: "purpose ex_tx = ''wallet_topup''"
    by (simp add: ex_tx_def)
  have b: "js_add (case fst (select_single (wallet_select_fault no_faults)
                         (\<lambda>w. w_user_id w = ''user_1'') (user_central_wallets ex_db)) of
                     Some w \<Rightarrow> balance w
                   | None \<Rightarrow> Num 0) (callback_netAmount (cs_amount ex_success)) = Num (395 / 2)"
    by (simp add: ex_defs select_single_def amounts_10000 js_add_ex)
  have u: "tx_user_id ex_tx = ''user_1''" "wallet_transactions ex_db = []"
      "chama_notifications ex_db = []" "wallet_transactions ex_db_chama = []"
      "chama_notifications ex_db_chama = []"
    by (simp_all add: ex_defs)
  have ante: "fst (select_single (tx_select_fault no_faults)
                 (\<lambda>t. checkout_request_id t = cs_reference ex_success) (mpesa_transactions ex_db))
           = Some ex_tx
      \<and> (purpose ex_tx = ''wallet_topup'' \<or> purpose ex_tx = ''other'')
      \<and> wallet_insert_fault no_faults = None \<and> wallet_update_fault no_faults = None
      \<and> wallet_tx_insert_fault no_faults = None \<and> notification_insert_fault no_faults = None"
    using l p by (simp add: no_faults_simps)
  note c = wallet_credit_condition [OF ex_valid, of no_faults ex_db, THEN conjunct1, THEN spec,
      THEN mp, OF ante, unfolded u b]
  have ante': "\<forall>t. fst (select_single (tx_select_fault no_faults)
                 (\<lambda>t. checkout_request_id t = cs_reference ex_success)
                 (mpesa_transactions ex_db_chama)) = Some t
      \<longrightarrow> purpose t \<noteq> ''wallet_topup'' \<and> purpose t \<noteq> ''other''"
    unfolding l' by (simp add: ex_tx_def)
  note n = wallet_credit_condition [OF ex_valid, of no_faults ex_db_chama, THEN conjunct2,
      THEN mp, OF ante', unfolded u]
  from c have "set (wallet_balances ''user_1''
           (snd (paystack_callback ex_runtime ex_env no_faults ex_webhook ex_db)))
       = {Num (395 / 2)}
   \<and> length (wallet_transactions
         (snd (paystack_callback ex_runtime ex_env no_faults ex_webhook ex_db))) = 1
   \<and> length (chama_notifications
         (snd (paystack_callback ex_runtime ex_env no_faults ex_webhook ex_db))) = 1"
    by (auto simp: wallet_balances_def)
  moreover have "user_central_wallets
         (snd (paystack_callback ex_runtime ex_env no_faults ex_webhook ex_db_chama))
       = user_central_wallets ex_db_chama
   \<and> wallet_transactions
         (snd (paystack_callback ex_runtime ex_env no_faults ex_webhook ex_db_chama)) = []
   \<and> chama_notifications
         (snd (paystack_callback ex_runtime ex_env no_faults ex_webhook ex_db_chama)) = []"
    using n by simp
  ultimately show ?thesis
    using l l' p by blast
qed

text \<open>
  C5 as stated fails: a transaction of purpose \<open>other\<close>, which is not \<open>wallet_topup\<close>, is
  credited; and a transaction of purpose \<open>wallet_topup\<close> that the lookup found is not
  credited when the update of the balance fails.
\<close>

theorem other_purpose_credited:
  "map purpose (mpesa_transactions ex_db_other) = [''other'']
   \<and> wallet_balances ''user_1'' ex_db_other = [Num 100]
   \<and> wallet_balances ''user_1''
         (snd (paystack_callback ex_runtime ex_env no_faults ex_webhook ex_db_other))
       = [Num (395 / 2)]
   \<and> map wt_amount (wallet_transactions
         (snd (paystack_callback ex_runtime ex_env no_faults ex_webhook ex_db_other)))
       = [Num (195 / 2)]
   \<and> map n_type (chama_notifications
         (snd (paystack_callback ex_runtime ex_env no_faults ex_webhook ex_db_other)))
       = [''payment_success'']
   \<and> map purpose (mpesa_transactions ex_db) = [''wallet_topup'']
   \<and> fst (select_single (tx_select_fault ex_update_fails)
         (\<lambda>t. checkout_request_id t = cs_reference ex_success) (mpesa_transactions ex_db))
       = Some ex_tx
   \<and> user_central_wallets
         (snd (paystack_callback ex_runtime ex_env ex_update_fails ex_webhook ex_db))
       = user_central_wallets ex_db
   \<and> wallet_transactions
         (snd (paystack_callback ex_runtime ex_env ex_update_fails ex_webhook ex_db)) = []"
  unfolding valid_webhook [OF ex_valid]
  by (simp add: process_charge_success_def credit_central_wallet_def db_defs ex_defs
      wallet_balances_def Let_def amounts_10000 js_add_ex)

section \<open>Repeated deliveries\<close>

text \<open>
  C3, as amended. Neither path looks for an earlier credit of the same reference. With
  a client, one transaction of the reference, one wallet of its owner with balance \<open>X\<close>
  and no failing lookup or update: when the purpose of the transaction is \<open>wallet_topup\<close>
  or \<open>other\<close>, the first delivery of a verified \<open>charge.success\<close> webhook of net amount
  \<open>N\<close> leaves the balance \<open>X + N\<close> and a second delivery of the same webhook leaves
  \<open>(X + N) + N\<close>; whatever the purpose, the manual credit with net amount \<open>M\<close> leaves
  \<open>X + M\<close> and marks the transaction \<open>success\<close>, and a second call with the same
  reference, on the transaction so marked, answers 200 and leaves \<open>(X + M) + M\<close>. The
  sums are the binary64 additions of the runtime.
\<close>

theorem double_credit:
  fixes f :: faults and db :: database and rt :: runtime and ev :: env
    and req mreq :: request and d :: charge_success and t :: mpesa_transaction
  assumes c: "createClient (SUPABASE_URL ev) (SUPABASE_SERVICE_ROLE_KEY ev) = None"
    and f: "tx_select_fault f = None" "tx_update_fault f = None" "wallet_select_fault f = None"
      "wallet_update_fault f = None"
    and tx: "filter (\<lambda>t. checkout_request_id t = reference) (mpesa_transactions db) = [t]"
    and w: "wallet_balances (tx_user_id t) db = [X]"
  defines "N \<equiv> callback_netAmount (cs_amount d)"
    and "M \<equiv> manual_netAmount (tx_amount t)"
    and "db1 \<equiv> snd (paystack_callback rt ev f req db)"
    and "m1 \<equiv> snd (manual_credit_payment rt ev f mreq db)"
  shows "(req_method req \<noteq> ''OPTIONS''
          \<and> PAYSTACK_SECRET_KEY ev = Some key \<and> key \<noteq> []
          \<and> x_paystack_signature req
              = Some (hmac_sha512_hex rt key (req_text rt (req_body req)))
          \<and> json_parse rt (req_text rt (req_body req)) = Some (Charge_success d)
          \<and> cs_reference d = reference
          \<and> (purpose t = ''wallet_topup'' \<or> purpose t = ''other'') \<longrightarrow>
            wallet_balances (tx_user_id t) db1 = [js_add X N]
          \<and> wallet_balances (tx_user_id t) (snd (paystack_callback rt ev f req db1))
              = [js_add (js_add X N) N])
       \<and> (req_method mreq \<noteq> ''OPTIONS'' \<and> req_json rt (req_body mreq) = Inr reference \<longrightarrow>
            wallet_balances (tx_user_id t) m1 = [js_add X M]
          \<and> map tx_status
              (filter (\<lambda>t. checkout_request_id t = reference) (mpesa_transactions m1))
              = [''success'']
          \<and> status (fst (manual_credit_payment rt ev f mreq m1)) = 200
          \<and> wallet_balances (tx_user_id t) (snd (manual_credit_payment rt ev f mreq m1))
              = [js_add (js_add X M) M])"
proof (intro conjI impI)
  assume a: "req_method req \<noteq> ''OPTIONS''
          \<and> PAYSTACK_SECRET_KEY ev = Some key \<and> key \<noteq> []
          \<and> x_paystack_signature req
              = Some (hmac_sha512_hex rt key (req_text rt (req_body req)))
          \<and> json_parse rt (req_text rt (req_body req)) = Some (Charge_success d)
          \<and> cs_reference d = reference
          \<and> (purpose t = ''wallet_topup'' \<or> purpose t = ''other'')"
  then have v: "req_method req \<noteq> ''OPTIONS''"
      "PAYSTACK_SECRET_KEY ev = Some key" "key \<noteq> []"
      "createClient (SUPABASE_URL ev) (SUPABASE_SERVICE_ROLE_KEY ev) = None"
      "x_paystack_signature req = Some (hmac_sha512_hex rt key (req_text rt (req_body req)))"
      "json_parse rt (req_text rt (req_body req)) = Some (Charge_success d)"
    and r: "cs_reference d = reference"
    and p: "purpose t = ''wallet_topup'' \<or> purpose t = ''other''"
    using c by simp_all
  note tx' = tx [folded r]
  show "wallet_balances (tx_user_id t) db1 = [js_add X N]"
    unfolding db1_def N_def by (rule callback_delivered_twice(1) [OF v f tx' p w])
  show "wallet_balances (tx_user_id t) (snd (paystack_callback rt ev f req db1))
          = [js_add (js_add X N) N]"
    unfolding db1_def N_def by (rule callback_delivered_twice(2) [OF v f tx' p w])
next
  assume "req_method mreq \<noteq> ''OPTIONS'' \<and> req_json rt (req_body mreq) = Inr reference"
  then have m: "req_method mreq \<noteq> ''OPTIONS''" "req_json rt (req_body mreq) = Inr reference"
    by simp_all
  show "wallet_balances (tx_user_id t) m1 = [js_add X M]"
    unfolding m1_def M_def by (rule manual_called_twice(1) [OF m c f tx w])
  show "map tx_status
          (filter (\<lambda>t. checkout_request_id t = reference) (mpesa_transactions m1))
          = [''success'']"
    unfolding m1_def by (rule manual_called_twice(2) [OF m c f tx w])
  show "status (fst (manual_credit_payment rt ev f mreq m1)) = 200"
    unfolding m1_def by (rule manual_called_twice(3) [OF m c f tx w])
  show "wallet_balances (tx_user_id t) (snd (manual_credit_payment rt ev f mreq m1))
          = [js_add (js_add X M) M]"
    unfolding m1_def M_def by (rule manual_called_twice(4) [OF m c f tx w])
qed

theorem double_credit_witness:
  "createClient (SUPABASE_URL ex_env) (SUPABASE_SERVICE_ROLE_KEY ex_env) = None
   \<and> filter (\<lambda>t. checkout_request_id t = ''ref_1'') (mpesa_transactions ex_db) = [ex_tx]
   \<and> wallet_balances (tx_user_id ex_tx) ex_db = [Num 100]
   \<and> cs_reference ex_success = ''ref_1''
   \<and> purpose ex_tx = ''wallet_topup''
   \<and> req_json ex_runtime (req_body ex_manual) = Inr ''ref_1''
   \<and> callback_netAmount (cs_amount ex_success) = Num (195 / 2)
   \<and> manual_netAmount (tx_amount ex_tx) = Num (195 / 2)
   \<and> wallet_balances (tx_user_id ex_tx)
         (snd (paystack_callback ex_runtime ex_env no_faults ex_webhook ex_db)) = [Num (395 / 2)]
   \<and> wallet_balances (tx_user_id ex_tx)
         (snd (paystack_callback ex_runtime ex_env no_faults ex_webhook
            (snd (paystack_callback ex_runtime ex_env no_faults ex_webhook ex_db)))) = [Num 295]
   \<and> wallet_balances (tx_user_id ex_tx)
         (snd (manual_credit_payment ex_runtime ex_env no_faults ex_manual ex_db))
       = [Num (395 / 2)]
   \<and> map tx_status (filter (\<lambda>t. checkout_request_id t = ''ref_1'') (mpesa_transactions
         (snd (manual_credit_payment ex_runtime ex_env no_faults ex_manual ex_db))))
       = [''success'']
   \<and> status (fst (manual_credit_payment ex_runtime ex_env no_faults ex_manual
         (snd (manual_credit_payment ex_runtime ex_env no_faults ex_manual ex_db)))) = 200
   \<and> wallet_balances (tx_user_id ex_tx)
         (snd (manual_credit_payment ex_runtime ex_env no_faults ex_manual
            (snd (manual_credit_payment ex_runtime ex_env no_faults ex_manual ex_db)))) = [Num 295]"
proof -
  have tx: "filter (\<lambda>t. checkout_request_id t = ''ref_1'') (mpesa_transactions ex_db) = [ex_tx]"
    and p: "purpose ex_tx = ''wallet_topup''"
    and r: "cs_reference ex_success = ''ref_1''"
    and w: "wallet_balances (tx_user_id ex_tx) ex_db = [Num 100]"
    by (simp_all add: ex_defs wallet_balances_def)
  have n: "callback_netAmount (cs_amount ex_success) = Num (195 / 2)"
      "manual_netAmount (tx_amount ex_tx) = Num (195 / 2)"
    by (simp_all add: ex_success_def ex_tx_def amounts_10000 manual_amounts_100)
  note dc = double_credit [OF ex_valid(4) no_faults_simps(1-4) tx w,
      of ex_webhook "''sk_test''" ex_runtime ex_success ex_manual]
  have a: "req_method ex_webhook \<noteq> ''OPTIONS''
          \<and> PAYSTACK_SECRET_KEY ex_env = Some ''sk_test'' \<and> ''sk_test'' \<noteq> []
          \<and> x_paystack_signature ex_webhook
              = Some (hmac_sha512_hex ex_runtime ''sk_test''
                  (req_text ex_runtime (req_body ex_webhook)))
          \<and> json_parse ex_runtime (req_text ex_runtime (req_body ex_webhook))
              = Some (Charge_success ex_success)
          \<and> cs_reference ex_success = ''ref_1''
          \<and> (purpose ex_tx = ''wallet_topup'' \<or> purpose ex_tx = ''other'')"
    using ex_valid r p by simp
  have b: "req_method ex_manual \<noteq> ''OPTIONS''
          \<and> req_json ex_runtime (req_body ex_manual) = Inr ''ref_1''"
    using ex_manual_valid r by simp
  from dc [THEN conjunct1, THEN mp, OF a]
  have "wallet_balances (tx_user_id ex_tx)
          (snd (paystack_callback ex_runtime ex_env no_faults ex_webhook ex_db)) = [Num (395 / 2)]
      \<and> wallet_balances (tx_user_id ex_tx)
          (snd (paystack_callback ex_runtime ex_env no_faults ex_webhook
             (snd (paystack_callback ex_runtime ex_env no_faults ex_webhook ex_db)))) = [Num 295]"
    by (simp add: n js_add_ex)
  moreover from dc [THEN conjunct2, THEN mp, OF b]
  have "wallet_balances (tx_user_id ex_tx)
          (snd (manual_credit_payment ex_runtime ex_env no_faults ex_manual ex_db))
        = [Num (395 / 2)]
      \<and> map tx_status (filter (\<lambda>t. checkout_request_id t = ''ref_1'') (mpesa_transactions
          (snd (manual_credit_payment ex_runtime ex_env no_faults ex_manual ex_db))))
        = [''success'']
      \<and> status (fst (manual_credit_payment ex_runtime ex_env no_faults ex_manual
          (snd (manual_credit_payment ex_runtime ex_env no_faults ex_manual ex_db)))) = 200
      \<and> wallet_balances (tx_user_id ex_tx)
          (snd (manual_credit_payment ex_runtime ex_env no_faults ex_manual
             (snd (manual_credit_payment ex_runtime ex_env no_faults ex_manual ex_db)))) = [Num 295]"
    by (simp add: n js_add_ex)
  ultimately show ?thesis
    using ex_valid(4) tx w r p b n by simp
qed

text \<open>
  C3 as stated fails: with the balance 100 and a charge of 153 cents, of net amount
  1.49175, two deliveries leave \<open>(100 + N) + N\<close> = 102.98349999999999, which is neither
  the sum \<open>100 + 2 * N\<close> = 102.9835 of the runtime nor the exact sum.
\<close>

theorem second_delivery_rounded:
  "wallet_balances ''user_1'' ex_db = [Num 100]
   \<and> callback_netAmount (Num 153) = Num (3359122372064969 / 2251799813685248)
   \<and> wallet_balances ''user_1''
         (snd (paystack_callback ex_runtime ex_env no_faults ex_webhook_153 ex_db))
       = [Num (3570923495946715 / 35184372088832)]
   \<and> wallet_balances ''user_1''
         (snd (paystack_callback ex_runtime ex_env no_faults ex_webhook_153
            (snd (paystack_callback ex_runtime ex_env no_faults ex_webhook_153 ex_db))))
       = [Num (1811704891505115 / 17592186044416)]
   \<and> js_add (Num 100) (js_mul (Num 2) (callback_netAmount (Num 153)))
       = Num (7246819566020461 / 70368744177664)
   \<and> Num (1811704891505115 / 17592186044416)
       \<noteq> js_add (Num 100) (js_mul (Num 2) (callback_netAmount (Num 153)))
   \<and> Num (1811704891505115 / 17592186044416)
       \<noteq> Num (100 + 2 * (3359122372064969 / 2251799813685248))"
proof -
  have tx: "filter (\<lambda>t. checkout_request_id t = cs_reference (ex_success\<lparr>cs_amount := Num 153\<rparr>))
              (mpesa_transactions ex_db) = [ex_tx]"
    and p: "purpose ex_tx = ''wallet_topup''"
    and w: "wallet_balances (tx_user_id ex_tx) ex_db = [Num 100]"
    and u: "tx_user_id ex_tx = ''user_1''"
    by (simp_all add: ex_defs wallet_balances_def)
  have n: "callback_netAmount (cs_amount (ex_success\<lparr>cs_amount := Num 153\<rparr>))
             = Num (3359122372064969 / 2251799813685248)"
    by (simp add: amounts_153)
  note d = callback_delivered_twice [OF ex_valid_153 no_faults_simps(1-4) tx disjI1 [OF p] w,
      unfolded n js_add_153 u]
  have e: "js_add (Num 100) (js_mul (Num 2) (callback_netAmount (Num 153)))
             = Num (7246819566020461 / 70368744177664)"
    by (simp only: amounts_153 js_add_153)
  from d e w [unfolded u] show ?thesis
    by (simp add: amounts_153)
qed

section \<open>The two crediting paths\<close>

text \<open>
  C1, as amended. When the stored amount of the transaction equals the amount paid that
  the callback handler computes from the event (the event amount divided by 100), and the
  purpose is \<open>wallet_topup\<close> or \<open>other\<close>, the manual credit function computes the same
  platform fee and the same net amount as the callback handler and, from the same
  database and with the same failures of database calls, leaves the same wallet
  balances.
\<close>

theorem manual_matches_callback:
  fixes f :: faults and db :: database and rt :: runtime and ev :: env
    and req mreq :: request and d :: charge_success and t :: mpesa_transaction
  assumes v: "req_method req \<noteq> ''OPTIONS''"
      "PAYSTACK_SECRET_KEY ev = Some key" "key \<noteq> []"
      "createClient (SUPABASE_URL ev) (SUPABASE_SERVICE_ROLE_KEY ev) = None"
      "x_paystack_signature req = Some (hmac_sha512_hex rt key (req_text rt (req_body req)))"
      "json_parse rt (req_text rt (req_body req)) = Some (Charge_success d)"
    and m: "req_method mreq \<noteq> ''OPTIONS''" "req_json rt (req_body mreq) = Inr (cs_reference d)"
    and l: "select_single (tx_select_fault f) (\<lambda>t. checkout_request_id t = cs_reference d)
              (mpesa_transactions db) = (Some t, None)"
    and a: "tx_amount t = callback_amountPaid (cs_amount d)"
    and p: "purpose t = ''wallet_topup'' \<or> purpose t = ''other''"
  shows "manual_platformFee (tx_amount t) = callback_platformFee (cs_amount d)
       \<and> manual_netAmount (tx_amount t) = callback_netAmount (cs_amount d)
       \<and> map (\<lambda>w. (w_user_id w, balance w))
           (user_central_wallets (snd (manual_credit_payment rt ev f mreq db))) =
         map (\<lambda>w. (w_user_id w, balance w))
           (user_central_wallets (snd (paystack_callback rt ev f req db)))"
proof (intro conjI)
  show fee: "manual_platformFee (tx_amount t) = callback_platformFee (cs_amount d)"
    by (simp add: manual_platformFee_def callback_platformFee_def a)
  then show net: "manual_netAmount (tx_amount t) = callback_netAmount (cs_amount d)"
    by (simp add: manual_netAmount_def callback_netAmount_def a)
  define db1 where "db1 = db\<lparr>mpesa_transactions :=
             fst (update_where (tx_update_fault f) (\<lambda>t. checkout_request_id t = cs_reference d)
                    (mark_success rt (req_text rt (req_body req)) d) (mpesa_transactions db))\<rparr>"
  have same: "user_central_wallets db1 = user_central_wallets db"
    by (simp add: db1_def)
  from l have l': "fst (select_single (tx_select_fault f)
      (\<lambda>t. checkout_request_id t = cs_reference d) (mpesa_transactions db)) = Some t"
    by simp
  have "user_central_wallets (snd (paystack_callback rt ev f req db)) =
          user_central_wallets (credit_central_wallet rt f d t (callback_platformFee (cs_amount d))
            (callback_netAmount (cs_amount d)) db1)"
    unfolding valid_webhook [OF v] db1_def by (rule process_charge_success_credited(1) [OF l' p])
  with manual_credit_wallets [OF m v(4) l same, of d "callback_platformFee (cs_amount d)"] net
  show "map (\<lambda>w. (w_user_id w, balance w))
           (user_central_wallets (snd (manual_credit_payment rt ev f mreq db))) =
         map (\<lambda>w. (w_user_id w, balance w))
           (user_central_wallets (snd (paystack_callback rt ev f req db)))"
    by simp
qed

theorem manual_matches_callback_witness:
  "select_single (tx_select_fault no_faults) (\<lambda>t. checkout_request_id t = cs_reference ex_success)
       (mpesa_transactions ex_db) = (Some ex_tx, None)
   \<and> tx_amount ex_tx = callback_amountPaid (cs_amount ex_success)
   \<and> purpose ex_tx = ''wallet_topup''
   \<and> manual_platformFee (tx_amount ex_tx) = callback_platformFee (cs_amount ex_success)
   \<and> manual_netAmount (tx_amount ex_tx) = callback_netAmount (cs_amount ex_success)
   \<and> map (\<lambda>w. (w_user_id w, balance w))
         (user_central_wallets (snd (manual_credit_payment ex_runtime ex_env no_faults ex_manual ex_db))) =
       map (\<lambda>w. (w_user_id w, balance w))
         (user_central_wallets (snd (paystack_callback ex_runtime ex_env no_faults ex_webhook ex_db)))"
proof -
  have l: "select_single (tx_select_fault no_faults)
             (\<lambda>t. checkout_request_id t = cs_reference ex_success) (mpesa_transactions ex_db)
           = (Some ex_tx, None)"
    by (simp add: ex_defs select_single_def)
  have a: "tx_amount ex_tx = callback_amountPaid (cs_amount ex_success)"
    by (simp add: ex_tx_def ex_success_def amounts_10000)
  have p: "purpose ex_tx = ''wallet_topup''"
    by (simp add: ex_tx_def)
  from manual_matches_callback [OF ex_valid ex_manual_valid l a disjI1 [OF p]] l a p
  show ?thesis
    by blast
qed

text \<open>
  C1 as stated fails: with the stored amount 10000 and the event amount 10000 the manual
  credit takes a fee of 250 and credits 9750, the callback handler takes a fee of 2.50
  and credits 97.50.
\<close>

theorem manual_differs_on_equal_amounts:
  "tx_amount (ex_tx\<lparr>tx_amount := Num 10000\<rparr>) = cs_amount ex_success
   \<and> manual_platformFee (Num 10000) = Num 250
   \<and> callback_platformFee (Num 10000) = Num (5 / 2)
   \<and> manual_netAmount (Num 10000) = Num 9750
   \<and> callback_netAmount (Num 10000) = Num (195 / 2)
   \<and> wallet_balances ''user_1'' (snd (manual_credit_payment ex_runtime ex_env no_faults ex_manual ex_db_cents))
       = [Num 9850]
   \<and> wallet_balances ''user_1'' (snd (paystack_callback ex_runtime ex_env no_faults ex_webhook ex_db_cents))
       = [Num (395 / 2)]
   \<and> map purpose (mpesa_transactions ex_db_chama) = [''contribution'']
   \<and> map tx_amount (mpesa_transactions ex_db_chama) = [callback_amountPaid (cs_amount ex_success)]
   \<and> wallet_balances ''user_1'' (snd (manual_credit_payment ex_runtime ex_env no_faults ex_manual ex_db_chama))
       = [Num (395 / 2)]
   \<and> wallet_balances ''user_1'' (snd (paystack_callback ex_runtime ex_env no_faults ex_webhook ex_db_chama))
       = [Num 100]"
proof -
  have r: "round_num 9850 = Num 9850"
    by (subst round_num_eval [where e = 13]) (simp_all add: eval_simps)
  have h: "req_method ex_webhook \<noteq> ''OPTIONS''"
      "PAYSTACK_SECRET_KEY ex_env = Some ''sk_test''" "''sk_test'' \<noteq> []"
      "createClient (SUPABASE_URL ex_env) (SUPABASE_SERVICE_ROLE_KEY ex_env) = None"
      "x_paystack_signature ex_webhook =
         Some (hmac_sha512_hex ex_runtime ''sk_test'' (req_text ex_runtime (req_body ex_webhook)))"
      "json_parse ex_runtime (req_text ex_runtime (req_body ex_webhook))
         = Some (Charge_success ex_success)"
    by (simp_all add: createClient_def or_null_def ex_defs)
  have m: "req_method ex_manual \<noteq> ''OPTIONS''"
      "req_json ex_runtime (req_body ex_manual) = Inr ''ref_1''"
    by (simp_all add: ex_defs)
  have f: "tx_select_fault no_faults = None" "tx_update_fault no_faults = None"
      "wallet_select_fault no_faults = None" "wallet_update_fault no_faults = None"
    by (simp_all add: no_faults_def)
  have tx: "filter (\<lambda>t. checkout_request_id t = cs_reference ex_success)
              (mpesa_transactions ex_db_cents) = [ex_tx\<lparr>tx_amount := Num 10000\<rparr>]"
    and tx': "filter (\<lambda>t. checkout_request_id t = ''ref_1'')
              (mpesa_transactions ex_db_cents) = [ex_tx\<lparr>tx_amount := Num 10000\<rparr>]"
    and p: "purpose (ex_tx\<lparr>tx_amount := Num 10000\<rparr>) = ''wallet_topup''
            \<or> purpose (ex_tx\<lparr>tx_amount := Num 10000\<rparr>) = ''other''"
    and w: "filter (\<lambda>w. w_user_id w = tx_user_id (ex_tx\<lparr>tx_amount := Num 10000\<rparr>))
              (user_central_wallets ex_db_cents) = [ex_wallet]"
    by (simp_all add: ex_defs)
  note a = callback_credit_step(1) [OF h f tx p w]
  note b = manual_credit_step(1) [OF m h(4) f tx' w]
  have "wallet_balances ''user_1''
          (snd (paystack_callback ex_runtime ex_env no_faults ex_webhook ex_db_cents))
        = [Num (395 / 2)]"
    unfolding wallet_balances_def a
    by (simp add: ex_defs amounts_10000 js_add_ex)
  moreover have "wallet_balances ''user_1''
          (snd (manual_credit_payment ex_runtime ex_env no_faults ex_manual ex_db_cents))
        = [Num 9850]"
    unfolding wallet_balances_def b
    by (simp add: ex_defs manual_amounts_10000 js_Num r)
  moreover have "wallet_balances ''user_1''
          (snd (manual_credit_payment ex_runtime ex_env no_faults ex_manual ex_db_chama))
        = [Num (395 / 2)]"
    by (simp add: manual_credit_payment_def manual_credit_try_def createClient_def or_null_def
        db_defs ex_defs wallet_balances_def Let_def manual_amounts_100 js_add_ex)
  moreover have "wallet_balances ''user_1''
          (snd (paystack_callback ex_runtime ex_env no_faults ex_webhook ex_db_chama))
        = [Num 100]"
    unfolding valid_webhook [OF h]
    by (simp add: process_charge_success_def db_defs ex_defs wallet_balances_def Let_def)
  ultimately show ?thesis
    by (simp add: manual_amounts_10000 amounts_10000 ex_defs)
qed

section \<open>The balance in a failure message\<close>

lemmas match_defs = balance_match.simps match_at_def match_space_def white_space_def
  match_spaces.simps match_amount_def canonicalize_def

lemma balance_match_ex:
  "balance_match ''Your Airtel Money balance is Ksh 35.00'' = Some ''35.00''"
  "balance_match ''Insufficient funds: balance is KES 1,250.50'' = None"
  "balance_match ''Insufficient funds: balance is Ksh 1,250.50'' = Some ''1,250.50''"
  "balance_match ''Insufficient funds: balance is KES1,250.50'' = Some ''1,250.50''"
  by (simp_all add: match_defs)

lemma parseFloat_ex:
  "parseFloat ''35.00'' = Num 35"
  "parseFloat ''1250.50'' = Num (2501 / 2)"
  by (simp_all add: parseFloat_def is_digit_def digits_val_def digit_val_def round_num_ex)

text \<open>
  The example of the specification: the balance 35.00 is extracted and the message for
  the user contains \<open>KES 35.00\<close>.
\<close>

lemma airtel_example:
  "availableBalance_of (Some ''Your Airtel Money balance is Ksh 35.00'') = Some (Num 35)"
  "sublist ''KES 35.00''
     (userMessage_of rt (Some ''Your Airtel Money balance is Ksh 35.00'') channel)"
proof -
  show a: "availableBalance_of (Some ''Your Airtel Money balance is Ksh 35.00'') = Some (Num 35)"
    by (simp add: availableBalance_of_def parsedMessage_of_def balance_match_ex parseFloat_ex)
  have "userMessage_of rt (Some ''Your Airtel Money balance is Ksh 35.00'') channel =
          (emoji_credit_card @ '' Payment failed: Insufficient ''
           @ (if channel = ''mobile_money'' then ''mobile money'' else ''account'')
           @ '' balance'' @ [CHR 0x0A] @ emoji_briefcase @ '' Available balance: '')
          @ ''KES 35.00''
          @ ([CHR 0x0A] @ emoji_repeat @ '' Please top up your account or try a smaller amount.'')"
    by (simp add: userMessage_of_def a toFixed2_ex)
  then show "sublist ''KES 35.00''
     (userMessage_of rt (Some ''Your Airtel Money balance is Ksh 35.00'') channel)"
    by (simp only: sublist_appendI)
qed

text \<open>
  C8 fails on the code: in the gateway response \<open>balance is KES 1,250.50\<close> the currency
  \<open>KES\<close> is followed by a blank, which only the alternative for \<open>Ksh\<close> allows, so no
  balance is extracted and the message is the raw response; the same response with
  \<open>Ksh\<close>, or with \<open>KES\<close> and no blank, gives the balance 1250.50.
\<close>

theorem balance_after_KES_blank_not_extracted:
  "availableBalance_of (Some ''Insufficient funds: balance is KES 1,250.50'') = None
   \<and> userMessage_of ex_runtime (Some ''Insufficient funds: balance is KES 1,250.50'') ''card''
       = ''Insufficient funds: balance is KES 1,250.50''
   \<and> availableBalance_of (Some ''Insufficient funds: balance is Ksh 1,250.50'')
       = Some (Num (2501 / 2))
   \<and> availableBalance_of (Some ''Insufficient funds: balance is KES1,250.50'')
       = Some (Num (2501 / 2))"
  by (simp add: availableBalance_of_def userMessage_of_def parsedMessage_of_def balance_match_ex
      parseFloat_ex)

end
